theory Spec2Isabelle
  imports Complex_Main
begin

section \<open>JavaScript numbers\<close>

text \<open>
  A JavaScript \<^verbatim>\<open>number\<close> is modelled as \<open>NaN\<close> or a finite value \<open>Num x\<close> with \<open>x\<close>
  a real: there is no infinity and one zero. Arithmetic on finite values is exact,
  except where rounding decides what the code does next: the underflow of the
  sizing quotient of the policy is written out (\<open>capped_size\<close>), and the matrix
  inversion takes the rounding of its operations as a parameter (\<open>invertMatrix\<close>).
  Every comparison with \<open>NaN\<close> is false and every arithmetic operation with a \<open>NaN\<close>
  operand is \<open>NaN\<close>, as in the language.
\<close>

datatype jsnum = NaN | Num real

fun isNaN :: "jsnum \<Rightarrow> bool" where
  "isNaN NaN = True"
| "isNaN (Num _) = False"

fun js_le :: "jsnum \<Rightarrow> jsnum \<Rightarrow> bool" where
  "js_le (Num a) (Num b) = (a \<le> b)"
| "js_le _ _ = False"

fun js_lt :: "jsnum \<Rightarrow> jsnum \<Rightarrow> bool" where
  "js_lt (Num a) (Num b) = (a < b)"
| "js_lt _ _ = False"

section \<open>Indicator library: ratio utilities (packages/features, rolling.js)\<close>




section \<open>Core data contracts (packages/core, types.ts)\<close>

text \<open>
  Thrown values: a failed \<^verbatim>\<open>Schema.parse\<close> throws a \<open>ZodError\<close>; the policy itself
  throws \<^verbatim>\<open>new Error(message)\<close>.
\<close>

datatype error = ZodError | Error string

datatype side = Buy | Sell

text \<open>
  \<^verbatim>\<open>Features\<close>: the timestamp is an integer; \<^verbatim>\<open>vals\<close> is the object of indicator
  values, read by key (\<open>map_of\<close>), a missing key being \<^verbatim>\<open>undefined\<close>.
\<close>

record features =
  f_t :: int
  f_exch :: string
  f_symbol :: string
  f_tf :: string
  f_vals :: "(string \<times> jsnum) list"
  f_regime :: "string option"

record alpha_signal =
  s_id :: string
  s_t :: int
  s_symbol :: string
  s_exch :: string
  s_tf :: string
  s_score :: jsnum
  s_conf :: jsnum
  s_horizon_sec :: int
  s_explain :: "string option"

record bracket =
  tp :: "real option"
  sl :: "real option"
  trail :: "real option"

datatype meta = MStr string | MNum jsnum

record action =
  a_t :: int
  a_symbol :: string
  a_exch :: string
  a_side :: side
  a_size :: real
  a_entry :: "real option"
  a_bracket :: "bracket option"
  a_metadata :: "(string \<times> meta) list"

text \<open>The timeframe pattern \<^verbatim>\<open>/^\d+[smhd]$/\<close>: one or more digits, then one unit letter.\<close>

definition is_digit :: "char \<Rightarrow> bool" where
  "is_digit c = (c \<in> set ''0123456789'')"

definition tf_matches :: "string \<Rightarrow> bool" where
  "tf_matches s = (2 \<le> length s \<and> list_all is_digit (butlast s) \<and> last s \<in> set ''smhd'')"

text \<open>
  The fields every schema shares: \<^verbatim>\<open>t: z.number().int().positive()\<close>,
  \<^verbatim>\<open>exch, symbol: z.string().min(1)\<close>, \<^verbatim>\<open>tf: z.string().regex(...)\<close>.
\<close>

definition features_header_ok :: "features \<Rightarrow> bool" where
  "features_header_ok f =
     (0 < f_t f \<and> f_exch f \<noteq> [] \<and> f_symbol f \<noteq> [] \<and> tf_matches (f_tf f))"

text \<open>\<^verbatim>\<open>vals: z.record(z.string(), z.number())\<close>: \<^verbatim>\<open>z.number()\<close> refuses \<open>NaN\<close>.\<close>

definition FeaturesSchema_ok :: "features \<Rightarrow> bool" where
  "FeaturesSchema_ok f = (features_header_ok f \<and> list_all (\<lambda>kv. \<not> isNaN (snd kv)) (f_vals f))"

definition FeaturesSchema_parse :: "features \<Rightarrow> error + features" where
  "FeaturesSchema_parse f = (if FeaturesSchema_ok f then Inr f else Inl ZodError)"

definition AlphaSignalSchema_ok :: "alpha_signal \<Rightarrow> bool" where
  "AlphaSignalSchema_ok s =
     (s_id s \<noteq> [] \<and> 0 < s_t s \<and> s_symbol s \<noteq> [] \<and> s_exch s \<noteq> [] \<and> tf_matches (s_tf s) \<and>
      js_le (Num (- 1)) (s_score s) \<and> js_le (s_score s) (Num 1) \<and>
      js_le (Num 0) (s_conf s) \<and> js_le (s_conf s) (Num 1) \<and>
      0 < s_horizon_sec s)"

definition AlphaSignalSchema_parse :: "alpha_signal \<Rightarrow> error + alpha_signal" where
  "AlphaSignalSchema_parse s = (if AlphaSignalSchema_ok s then Inr s else Inl ZodError)"

text \<open>An optional field that must be positive when present: \<^verbatim>\<open>z.number().positive().optional()\<close>.\<close>

fun positive_optional :: "real option \<Rightarrow> bool" where
  "positive_optional None = True"
| "positive_optional (Some x) = (0 < x)"

definition BracketSchema_ok :: "bracket \<Rightarrow> bool" where
  "BracketSchema_ok b = (positive_optional (tp b) \<and> positive_optional (sl b) \<and> positive_optional (trail b))"

definition ActionSchema_ok :: "action \<Rightarrow> bool" where
  "ActionSchema_ok a =
     (0 < a_t a \<and> a_symbol a \<noteq> [] \<and> a_exch a \<noteq> [] \<and> 0 < a_size a \<and>
      positive_optional (a_entry a) \<and>
      (case a_bracket a of None \<Rightarrow> True | Some b \<Rightarrow> BracketSchema_ok b))"

definition ActionSchema_parse :: "action \<Rightarrow> error + action" where
  "ActionSchema_parse a = (if ActionSchema_ok a then Inr a else Inl ZodError)"

text \<open>
  Configuration fields: \<^verbatim>\<open>z.number()...default(d)\<close> takes the default for a missing
  key, refuses \<open>NaN\<close> and checks the range of a given number;
  \<^verbatim>\<open>z.number().int().positive().default(d)\<close> and \<^verbatim>\<open>z.boolean().default(d)\<close> likewise.
\<close>

fun number_field_ok :: "(real \<Rightarrow> bool) \<Rightarrow> jsnum option \<Rightarrow> bool" where
  "number_field_ok ok None = True"
| "number_field_ok ok (Some NaN) = False"
| "number_field_ok ok (Some (Num x)) = ok x"

fun number_field :: "real \<Rightarrow> jsnum option \<Rightarrow> real" where
  "number_field d (Some (Num x)) = x"
| "number_field d _ = d"

fun int_field_ok :: "int option \<Rightarrow> bool" where
  "int_field_ok None = True"
| "int_field_ok (Some n) = (0 < n)"

fun field_or :: "'a \<Rightarrow> 'a option \<Rightarrow> 'a" where
  "field_or d None = d"
| "field_or d (Some x) = x"

text \<open>
  The two library functions that print numbers, \<^verbatim>\<open>Number.prototype.toFixed\<close> and the
  number-to-string conversion of a template literal, are parameters of the model.
\<close>

record js_builtins =
  toFixed :: "real \<Rightarrow> nat \<Rightarrow> string"
  numberToString :: "int \<Rightarrow> string"

section \<open>MACD alpha (packages/plugins, alpha/macd.ts)\<close>

record macd_config =
  minHistogram :: real
  macd_horizonSec :: int
  useCrossover :: bool

text \<open>What the caller passes to the constructor: every key optional, unknown keys refused (\<^verbatim>\<open>.strict()\<close>).\<close>

record macd_config_input =
  minHistogram_in :: "jsnum option"
  macd_horizonSec_in :: "int option"
  useCrossover_in :: "bool option"
  macd_unknown_keys :: "string list"

definition MACDConfigSchema_parse :: "macd_config_input \<Rightarrow> error + macd_config" where
  "MACDConfigSchema_parse c =
     (if number_field_ok (\<lambda>x. 0 \<le> x) (minHistogram_in c) \<and> int_field_ok (macd_horizonSec_in c) \<and>
         macd_unknown_keys c = []
      then Inr \<lparr>minHistogram = number_field (1 / 10000) (minHistogram_in c),
                macd_horizonSec = field_or 300 (macd_horizonSec_in c),
                useCrossover = field_or True (useCrossover_in c)\<rparr>
      else Inl ZodError)"

record macd_state =
  prevMacd :: "real option"
  prevSignal :: "real option"
  prevHistogram :: "real option"

record macd_alpha =
  macd_cfg :: macd_config
  macd_st :: macd_state

definition new_MACDAlpha :: "macd_config_input \<Rightarrow> error + macd_alpha" where
  "new_MACDAlpha c =
     (case MACDConfigSchema_parse c of
        Inl e \<Rightarrow> Inl e
      | Inr cfg \<Rightarrow> Inr \<lparr>macd_cfg = cfg,
                        macd_st = \<lparr>prevMacd = None, prevSignal = None, prevHistogram = None\<rparr>\<rparr>)"

datatype crossover = Bullish | Bearish

definition detectCrossover :: "macd_alpha \<Rightarrow> real \<Rightarrow> real \<Rightarrow> crossover option" where
  "detectCrossover a macd signal =
     (case (prevMacd (macd_st a), prevSignal (macd_st a)) of
        (Some pm, Some ps) \<Rightarrow>
          (let wasBelowSignal = pm < ps; isAboveSignal = macd > signal in
           if wasBelowSignal \<and> isAboveSignal then Some Bullish
           else let wasAboveSignal = pm > ps; isBelowSignal = macd < signal in
             if wasAboveSignal \<and> isBelowSignal then Some Bearish else None)
      | _ \<Rightarrow> None)"

definition computeHistogramSignal :: "js_builtins \<Rightarrow> macd_alpha \<Rightarrow> real \<Rightarrow> real \<times> real \<times> string" where
  "computeHistogramSignal js a histogram =
     (let direction = (if histogram > 0 then 1 else - 1 :: int);
          momentumStrength =
            (case prevHistogram (macd_st a) of
               None \<Rightarrow> 5 / 10
             | Some ph \<Rightarrow>
                 (let histogramChange = histogram - ph in
                  if (direction > 0 \<and> histogramChange > 0) \<or> (direction < 0 \<and> histogramChange < 0)
                  then 7 / 10 else 3 / 10));
          score = max (- 1) (min 1 (histogram * 1000));
          conf = momentumStrength;
          explain =
            (if direction > 0 then ''MACD histogram positive ('' else ''MACD histogram negative ('') @
            toFixed js histogram 6 @ ''), momentum '' @
            (if momentumStrength > 5 / 10 then ''strengthening'' else ''weakening'')
      in (score, conf, explain))"

definition updateState :: "macd_alpha \<Rightarrow> real \<Rightarrow> real \<Rightarrow> real \<Rightarrow> macd_alpha" where
  "updateState a macd signal histogram =
     a\<lparr>macd_st := \<lparr>prevMacd = Some macd, prevSignal = Some signal, prevHistogram = Some histogram\<rparr>\<rparr>"

text \<open>
  The first block of \<^verbatim>\<open>generateSignal\<close>: read \<^verbatim>\<open>macd\<close>, \<^verbatim>\<open>macd_signal\<close> and
  \<^verbatim>\<open>macd_histogram\<close>; \<open>None\<close> when one of them is \<^verbatim>\<open>undefined\<close> or \<open>NaN\<close>.
\<close>

definition macd_inputs :: "features \<Rightarrow> (real \<times> real \<times> real) option" where
  "macd_inputs features =
     (case (map_of (f_vals features) ''macd'', map_of (f_vals features) ''macd_signal'',
            map_of (f_vals features) ''macd_histogram'') of
        (Some (Num macd), Some (Num signal), Some (Num histogram)) \<Rightarrow> Some (macd, signal, histogram)
      | _ \<Rightarrow> None)"

text \<open>
  \<^verbatim>\<open>generateSignal(features)\<close>: the result (a thrown error, \<^verbatim>\<open>null\<close> as \<open>None\<close>, or a
  signal) and the instance afterwards. The features are not validated here; the
  signal built at the end is (\<^verbatim>\<open>AlphaSignalSchema.parse\<close>).
\<close>

definition macd_generateSignal ::
  "js_builtins \<Rightarrow> macd_alpha \<Rightarrow> features \<Rightarrow> (error + alpha_signal option) \<times> macd_alpha" where
  "macd_generateSignal js a features =
     (case macd_inputs features of
        None \<Rightarrow> (Inr None, a)
      | Some (macd, signal, histogram) \<Rightarrow>
          if \<bar>histogram\<bar> < minHistogram (macd_cfg a)
          then (Inr None, updateState a macd signal histogram)
          else
            (let (score, conf, explain) =
                   (if useCrossover (macd_cfg a) \<and> prevMacd (macd_st a) \<noteq> None then
                      (case detectCrossover a macd signal of
                         Some Bullish \<Rightarrow> (1, 8 / 10, ''MACD bullish crossover detected'')
                       | Some Bearish \<Rightarrow> (- 1, 8 / 10, ''MACD bearish crossover detected'')
                       | None \<Rightarrow> computeHistogramSignal js a histogram)
                    else computeHistogramSignal js a histogram);
                 a' = updateState a macd signal histogram
             in if score = 0 \<or> conf = 0 then (Inr None, a')
                else
                  (case AlphaSignalSchema_parse
                          \<lparr>s_id = ''macd-'' @ numberToString js (f_t features),
                           s_t = f_t features,
                           s_symbol = f_symbol features,
                           s_exch = f_exch features,
                           s_tf = f_tf features,
                           s_score = Num score,
                           s_conf = Num conf,
                           s_horizon_sec = macd_horizonSec (macd_cfg a),
                           s_explain = Some explain\<rparr> of
                     Inl e \<Rightarrow> (Inl e, a')
                   | Inr s \<Rightarrow> (Inr (Some s), a'))))"

definition macd_reset :: "macd_alpha \<Rightarrow> macd_alpha" where
  "macd_reset a = a\<lparr>macd_st := \<lparr>prevMacd = None, prevSignal = None, prevHistogram = None\<rparr>\<rparr>"

text \<open>The instances a caller can hold: a constructed one, after any calls of \<^verbatim>\<open>generateSignal\<close> and \<^verbatim>\<open>reset\<close>.\<close>

inductive macd_reachable :: "macd_alpha \<Rightarrow> bool" where
  macd_new: "new_MACDAlpha c = Inr a \<Longrightarrow> macd_reachable a"
| macd_call: "macd_reachable a \<Longrightarrow> macd_reachable (snd (macd_generateSignal js a features))"
| macd_cleared: "macd_reachable a \<Longrightarrow> macd_reachable (macd_reset a)"

section \<open>AR(4) alpha (packages/plugins, alpha/ar4.ts)\<close>

record ar4_config =
  fitWindow :: int
  ar4_horizonSec :: int
  minRSquared :: real

record ar4_config_input =
  fitWindow_in :: "int option"
  ar4_horizonSec_in :: "int option"
  minRSquared_in :: "jsnum option"
  ar4_unknown_keys :: "string list"

definition AR4ConfigSchema_parse :: "ar4_config_input \<Rightarrow> error + ar4_config" where
  "AR4ConfigSchema_parse c =
     (if int_field_ok (fitWindow_in c) \<and> int_field_ok (ar4_horizonSec_in c) \<and>
         number_field_ok (\<lambda>x. 0 \<le> x \<and> x \<le> 1) (minRSquared_in c) \<and> ar4_unknown_keys c = []
      then Inr \<lparr>fitWindow = field_or 100 (fitWindow_in c),
                ar4_horizonSec = field_or 300 (ar4_horizonSec_in c),
                minRSquared = number_field (1 / 10) (minRSquared_in c)\<rparr>
      else Inl ZodError)"

record ar4_coefficients =
  beta0 :: real
  beta1 :: real
  beta2 :: real
  beta3 :: real
  beta4 :: real
  rSquared :: real

subsection \<open>Matrix inversion\<close>

text \<open>A matrix is the list of its rows. \<open>identity n\<close> is the fallback \<^verbatim>\<open>invertMatrix\<close> returns.\<close>

definition identity :: "nat \<Rightarrow> real list list" where
  "identity n = map (\<lambda>i. map (\<lambda>j. if i = j then 1 else 0) [0..<n]) [0..<n]"

text \<open>
  Partial pivoting: \<^verbatim>\<open>maxRow = i; for (k = i + 1; k < n; k++) if (|a[k][i]| > |a[maxRow][i]|) maxRow = k\<close>.
\<close>

definition select_maxRow :: "nat \<Rightarrow> real list list \<Rightarrow> nat \<Rightarrow> nat" where
  "select_maxRow n augmented i =
     foldl (\<lambda>maxRow k. if \<bar>augmented ! k ! i\<bar> > \<bar>augmented ! maxRow ! i\<bar> then k else maxRow)
       i [i + 1..<n]"

text \<open>\<^verbatim>\<open>[a[i], a[maxRow]] = [a[maxRow], a[i]]\<close>.\<close>

definition swap_rows :: "real list list \<Rightarrow> nat \<Rightarrow> nat \<Rightarrow> real list list" where
  "swap_rows augmented i maxRow = augmented[i := augmented ! maxRow, maxRow := augmented ! i]"

text \<open>
  The elimination divides, multiplies and subtracts doubles, and each of these
  operations yields the exact result rounded to a double. The inversion takes the
  rounding as a parameter \<open>rd\<close>, so that what is proved of it for every \<open>rd\<close> holds
  of the code's arithmetic (as long as no operation overflows or meets a \<open>NaN\<close>,
  which a real cannot show); \<open>exact\<close> is the arithmetic without rounding. The
  comparisons of the pivot search and of the singularity test are exact on doubles.
\<close>

definition exact :: "real \<Rightarrow> real" where
  "exact x = x"

text \<open>
  \<^verbatim>\<open>for (j = 0; j < 2 * n; j++) a[i][j] /= pivot\<close>; the rows of the augmented matrix
  of a square matrix have \<open>2 * n\<close> entries, so the loop visits each entry once.
\<close>

definition scale_row :: "(real \<Rightarrow> real) \<Rightarrow> real \<Rightarrow> real list \<Rightarrow> real list" where
  "scale_row rd pivot row = map (\<lambda>x. rd (x / pivot)) row"

text \<open>
  \<^verbatim>\<open>for (k = 0; k < n; k++) if (k !== i) { factor = a[k][i];
  for (j = 0; j < 2 * n; j++) a[k][j] -= factor * a[i][j] }\<close>: row \<open>i\<close> is not written in
  this loop, so every other row is updated from its own entries and row \<open>i\<close>. The
  product is rounded, then the difference.
\<close>

definition eliminate_column ::
  "(real \<Rightarrow> real) \<Rightarrow> nat \<Rightarrow> real list list \<Rightarrow> nat \<Rightarrow> real list list" where
  "eliminate_column rd n augmented i =
     map (\<lambda>k. if k \<noteq> i
               then (let factor = augmented ! k ! i
                     in map (\<lambda>(x, y). rd (x - rd (factor * y))) (zip (augmented ! k) (augmented ! i)))
               else augmented ! k)
       [0..<n]"

text \<open>One pass of the elimination loop for column \<open>i\<close>; \<open>None\<close> is the early return on a small pivot.\<close>

definition pivot_step ::
  "(real \<Rightarrow> real) \<Rightarrow> nat \<Rightarrow> nat \<Rightarrow> real list list \<Rightarrow> real list list option" where
  "pivot_step rd n i augmented =
     (let maxRow = select_maxRow n augmented i;
          swapped = swap_rows augmented i maxRow
      in if \<bar>swapped ! i ! i\<bar> < 1 / 10 ^ 10 then None
         else (let pivot = swapped ! i ! i;
                   scaled = swapped[i := scale_row rd pivot (swapped ! i)]
               in Some (eliminate_column rd n scaled i)))"

function forward_elimination ::
  "(real \<Rightarrow> real) \<Rightarrow> nat \<Rightarrow> nat \<Rightarrow> real list list \<Rightarrow> real list list option" where
  "forward_elimination rd n i augmented =
     (if i < n
      then (case pivot_step rd n i augmented of
              None \<Rightarrow> None
            | Some augmented' \<Rightarrow> forward_elimination rd n (Suc i) augmented')
      else Some augmented)"
  by pat_completeness auto
termination
  by (relation "measure (\<lambda>(rd, n, i, augmented). n - i)") auto

declare forward_elimination.simps [simp del]

text \<open>
  The pivot that pass \<open>i\<close> selects (\<^verbatim>\<open>augmented[i][i]\<close> after the row swap), and the
  matrix after the first \<open>k\<close> passes of the loop (\<open>None\<close> once a pass has returned
  early).
\<close>

definition selected_pivot :: "nat \<Rightarrow> real list list \<Rightarrow> nat \<Rightarrow> real" where
  "selected_pivot n augmented i = swap_rows augmented i (select_maxRow n augmented i) ! i ! i"

primrec passes ::
  "(real \<Rightarrow> real) \<Rightarrow> nat \<Rightarrow> nat \<Rightarrow> real list list \<Rightarrow> real list list option" where
  "passes rd n 0 augmented = Some augmented"
| "passes rd n (Suc k) augmented =
     (case passes rd n k augmented of None \<Rightarrow> None | Some a \<Rightarrow> pivot_step rd n k a)"

definition augment :: "real list list \<Rightarrow> real list list" where
  "augment matrix =
     (let n = length matrix
      in map (\<lambda>i. matrix ! i @ map (\<lambda>j. if i = j then 1 else 0) [0..<n]) [0..<n])"

definition invertMatrix :: "(real \<Rightarrow> real) \<Rightarrow> real list list \<Rightarrow> real list list" where
  "invertMatrix rd matrix =
     (let n = length matrix
      in case forward_elimination rd n 0 (augment matrix) of
           None \<Rightarrow> identity n
         | Some augmented \<Rightarrow> map (drop n) augmented)"

subsection \<open>Ordinary least squares\<close>

text \<open>
  \<^verbatim>\<open>X'X\<close> and \<^verbatim>\<open>X'y\<close>, accumulated from zero over the rows \<open>m = 0, ..., n - 1\<close>. The
  fit is written in the arithmetic without rounding.
\<close>

definition normal_matrix :: "real list list \<Rightarrow> real list list" where
  "normal_matrix X =
     (let n = length X;
          k = length (X ! 0)
      in map (\<lambda>i. map (\<lambda>j. foldl (\<lambda>acc m. acc + X ! m ! i * X ! m ! j) 0 [0..<n]) [0..<k]) [0..<k])"

definition normal_vector :: "real list list \<Rightarrow> real list \<Rightarrow> real list" where
  "normal_vector X y =
     (let n = length X;
          k = length (X ! 0)
      in map (\<lambda>i. foldl (\<lambda>acc m. acc + X ! m ! i * y ! m) 0 [0..<n]) [0..<k])"

definition solveOLS :: "real list list \<Rightarrow> real list \<Rightarrow> real list" where
  "solveOLS X y =
     (let k = length (X ! 0);
          XtX = normal_matrix X;
          Xty = normal_vector X y;
          XtXInv = invertMatrix exact XtX
      in map (\<lambda>i. foldl (\<lambda>acc j. acc + XtXInv ! i ! j * Xty ! j) 0 [0..<k]) [0..<k])"

definition zero_fit :: ar4_coefficients where
  "zero_fit = \<lparr>beta0 = 0, beta1 = 0, beta2 = 0, beta3 = 0, beta4 = 0, rSquared = 0\<rparr>"

definition design_matrix :: "real list \<Rightarrow> real list list" where
  "design_matrix returns =
     map (\<lambda>i. [1, returns ! (i - 1), returns ! (i - 2), returns ! (i - 3), returns ! (i - 4)])
       [4..<length returns]"

definition target_vector :: "real list \<Rightarrow> real list" where
  "target_vector returns = map (\<lambda>i. returns ! i) [4..<length returns]"

definition fitAR4 :: "real list \<Rightarrow> ar4_coefficients" where
  "fitAR4 returns =
     (if length returns < 10 then zero_fit
      else
        (let X = design_matrix returns;
             y = target_vector returns
         in if length X = 0 then zero_fit
            else
              (let beta = solveOLS X y;
                   yMean = foldl (\<lambda>acc val. acc + val) 0 y / real (length y);
                   ssTot = foldl (\<lambda>acc val. acc + (val - yMean) ^ 2) 0 y;
                   ssRes = foldl (\<lambda>acc i.
                              (let yPred = beta ! 0 + beta ! 1 * X ! i ! 1 + beta ! 2 * X ! i ! 2 +
                                           beta ! 3 * X ! i ! 3 + beta ! 4 * X ! i ! 4
                               in acc + (y ! i - yPred) ^ 2)) 0 [0..<length y];
                   rSquared' = (if ssTot = 0 then 0 else 1 - ssRes / ssTot)
               in \<lparr>beta0 = beta ! 0, beta1 = beta ! 1, beta2 = beta ! 2, beta3 = beta ! 3,
                   beta4 = beta ! 4, rSquared = max 0 (min 1 rSquared')\<rparr>)))"

definition predictAR4 :: "ar4_coefficients \<Rightarrow> real list \<Rightarrow> real" where
  "predictAR4 coefficients recentReturns =
     beta0 coefficients + beta1 coefficients * recentReturns ! 0 +
     beta2 coefficients * recentReturns ! 1 + beta3 coefficients * recentReturns ! 2 +
     beta4 coefficients * recentReturns ! 3"

subsection \<open>The plugin\<close>

record ar4_alpha =
  ar4_cfg :: ar4_config
  coefficients :: "ar4_coefficients option"
  returnHistory :: "real list"

definition new_AR4Alpha :: "ar4_config_input \<Rightarrow> error + ar4_alpha" where
  "new_AR4Alpha c =
     (case AR4ConfigSchema_parse c of
        Inl e \<Rightarrow> Inl e
      | Inr cfg \<Rightarrow> Inr \<lparr>ar4_cfg = cfg, coefficients = None, returnHistory = []\<rparr>)"

text \<open>
  The first half of \<^verbatim>\<open>generateSignal\<close>, for a numeric \<^verbatim>\<open>return_1\<close>: push the return,
  drop the oldest one beyond \<^verbatim>\<open>fitWindow\<close>, refit when the length is a multiple of 20
  or there is no fit yet.
\<close>

definition ar4_observe :: "ar4_alpha \<Rightarrow> real \<Rightarrow> ar4_alpha" where
  "ar4_observe a currentReturn =
     (let pushed = returnHistory a @ [currentReturn];
          history = (if int (length pushed) > fitWindow (ar4_cfg a) then tl pushed else pushed);
          fit = (if length history mod 20 = 0 \<or> coefficients a = None
                 then Some (fitAR4 history) else coefficients a)
      in a\<lparr>coefficients := fit, returnHistory := history\<rparr>)"

text \<open>
  The second half, on the updated instance: the \<^verbatim>\<open>return null\<close> tests, the prediction
  and the validated signal.
\<close>

definition ar4_signal :: "js_builtins \<Rightarrow> ar4_alpha \<Rightarrow> features \<Rightarrow> error + alpha_signal option" where
  "ar4_signal js a features =
     (case coefficients a of
        None \<Rightarrow> Inr None
      | Some c \<Rightarrow>
          if length (returnHistory a) < 4 then Inr None
          else if rSquared c < minRSquared (ar4_cfg a) then Inr None
          else
            (let len = length (returnHistory a);
                 recentReturns = [returnHistory a ! (len - 1), returnHistory a ! (len - 2),
                                  returnHistory a ! (len - 3), returnHistory a ! (len - 4)];
                 predictedReturn = predictAR4 c recentReturns;
                 score = max (- 1) (min 1 (predictedReturn * 100));
                 conf = rSquared c
             in map_sum id Some
                  (AlphaSignalSchema_parse
                     \<lparr>s_id = ''ar4-'' @ numberToString js (f_t features),
                      s_t = f_t features,
                      s_symbol = f_symbol features,
                      s_exch = f_exch features,
                      s_tf = f_tf features,
                      s_score = Num score,
                      s_conf = Num conf,
                      s_horizon_sec = ar4_horizonSec (ar4_cfg a),
                      s_explain = Some (''AR(4) predicted return: '' @
                         toFixed js predictedReturn 6 @ '', R'' @ [CHR 0xB2] @ '': '' @
                         toFixed js (rSquared c) 3)\<rparr>)))"

text \<open>
  \<^verbatim>\<open>generateSignal(features)\<close>: a missing or \<open>NaN\<close> \<^verbatim>\<open>return_1\<close> returns \<^verbatim>\<open>null\<close> and
  leaves the instance as it is.
\<close>

definition ar4_generateSignal ::
  "js_builtins \<Rightarrow> ar4_alpha \<Rightarrow> features \<Rightarrow> (error + alpha_signal option) \<times> ar4_alpha" where
  "ar4_generateSignal js a features =
     (case map_of (f_vals features) ''return_1'' of
        Some (Num currentReturn) \<Rightarrow>
          (let a' = ar4_observe a currentReturn in (ar4_signal js a' features, a'))
      | _ \<Rightarrow> (Inr None, a))"

definition ar4_reset :: "ar4_alpha \<Rightarrow> ar4_alpha" where
  "ar4_reset a = a\<lparr>coefficients := None, returnHistory := []\<rparr>"

text \<open>The instances a caller can hold: a constructed one, after any calls of \<^verbatim>\<open>generateSignal\<close> and \<^verbatim>\<open>reset\<close>.\<close>

inductive ar4_reachable :: "ar4_alpha \<Rightarrow> bool" where
  ar4_new: "new_AR4Alpha c = Inr a \<Longrightarrow> ar4_reachable a"
| ar4_call: "ar4_reachable a \<Longrightarrow> ar4_reachable (snd (ar4_generateSignal js a features))"
| ar4_cleared: "ar4_reachable a \<Longrightarrow> ar4_reachable (ar4_reset a)"

section \<open>Threshold-ATR policy (packages/plugins, policy/thresholdAtr.js)\<close>

record threshold_atr_config =
  enterThreshold :: real
  exitThreshold :: real
  fixedNotional :: real
  useAtrSizing :: bool
  atrSizingMultiplier :: real
  atrTpMultiplier :: real
  atrSlMultiplier :: real
  maxSize :: real

record threshold_atr_config_input =
  enterThreshold_in :: "jsnum option"
  exitThreshold_in :: "jsnum option"
  fixedNotional_in :: "jsnum option"
  useAtrSizing_in :: "bool option"
  atrSizingMultiplier_in :: "jsnum option"
  atrTpMultiplier_in :: "jsnum option"
  atrSlMultiplier_in :: "jsnum option"
  maxSize_in :: "jsnum option"
  policy_unknown_keys :: "string list"

definition ThresholdAtrConfigSchema_ok :: "threshold_atr_config_input \<Rightarrow> bool" where
  "ThresholdAtrConfigSchema_ok c =
     (number_field_ok (\<lambda>x. 0 \<le> x \<and> x \<le> 1) (enterThreshold_in c) \<and>
      number_field_ok (\<lambda>x. 0 \<le> x \<and> x \<le> 1) (exitThreshold_in c) \<and>
      number_field_ok (\<lambda>x. 0 < x) (fixedNotional_in c) \<and>
      number_field_ok (\<lambda>x. 0 < x) (atrSizingMultiplier_in c) \<and>
      number_field_ok (\<lambda>x. 0 < x) (atrTpMultiplier_in c) \<and>
      number_field_ok (\<lambda>x. 0 < x) (atrSlMultiplier_in c) \<and>
      number_field_ok (\<lambda>x. 0 < x) (maxSize_in c) \<and>
      policy_unknown_keys c = [])"

definition ThresholdAtrConfigSchema_parse :: "threshold_atr_config_input \<Rightarrow> error + threshold_atr_config" where
  "ThresholdAtrConfigSchema_parse c =
     (if ThresholdAtrConfigSchema_ok c
      then Inr \<lparr>enterThreshold = number_field (5 / 10) (enterThreshold_in c),
                exitThreshold = number_field (3 / 10) (exitThreshold_in c),
                fixedNotional = number_field 1000 (fixedNotional_in c),
                useAtrSizing = field_or False (useAtrSizing_in c),
                atrSizingMultiplier = number_field 1 (atrSizingMultiplier_in c),
                atrTpMultiplier = number_field 2 (atrTpMultiplier_in c),
                atrSlMultiplier = number_field 1 (atrSlMultiplier_in c),
                maxSize = number_field 10 (maxSize_in c)\<rparr>
      else Inl ZodError)"

record policy_state =
  st_side :: "side option"
  st_size :: real

record threshold_atr_policy =
  pol_cfg :: threshold_atr_config
  pol_st :: policy_state

definition flat :: policy_state where
  "flat = \<lparr>st_side = None, st_size = 0\<rparr>"

text \<open>The constructor: parse the configuration, then the hysteresis check.\<close>

definition new_ThresholdAtrPolicy :: "threshold_atr_config_input \<Rightarrow> error + threshold_atr_policy" where
  "new_ThresholdAtrPolicy c =
     (case ThresholdAtrConfigSchema_parse c of
        Inl e \<Rightarrow> Inl e
      | Inr cfg \<Rightarrow>
          if enterThreshold cfg < exitThreshold cfg
          then Inl (Error ''enterThreshold must be >= exitThreshold for proper hysteresis'')
          else Inr \<lparr>pol_cfg = cfg, pol_st = flat\<rparr>)"

definition computeBracket :: "threshold_atr_config \<Rightarrow> real \<Rightarrow> real \<Rightarrow> side \<Rightarrow> bracket" where
  "computeBracket cfg entryPrice atr side =
     (let tpDistance = atr * atrTpMultiplier cfg;
          slDistance = atr * atrSlMultiplier cfg
      in if side = Buy
         then \<lparr>tp = Some (entryPrice + tpDistance), sl = Some (entryPrice - slDistance), trail = None\<rparr>
         else \<lparr>tp = Some (entryPrice - tpDistance), sl = Some (entryPrice + slDistance), trail = None\<rparr>)"

text \<open>
  \<^verbatim>\<open>Math.min(fixedNotional / denominator, maxSize)\<close>. The schema makes
  \<^verbatim>\<open>fixedNotional\<close> positive, so over a zero denominator the quotient is
  \<^verbatim>\<open>+Infinity\<close> and the minimum is \<^verbatim>\<open>maxSize\<close> (zero is unsigned here; over a
  negative zero the code has \<^verbatim>\<open>-Infinity\<close>). The quotient of two doubles is the exact
  quotient rounded to the nearest double, which is zero exactly when the exact
  quotient has magnitude at most \<open>2\<^sup>-\<^sup>1\<^sup>0\<^sup>7\<^sup>5\<close>, half the least positive double (the
  tie rounds to even): this underflow is written out, since the state machine tests
  the size against zero. Any other quotient stands for its rounding.
\<close>

definition capped_size :: "real \<Rightarrow> real \<Rightarrow> real \<Rightarrow> real" where
  "capped_size notional denominator cap =
     (if denominator = 0 then cap
      else if \<bar>notional / denominator\<bar> \<le> 1 / 2 ^ 1075 then min 0 cap
      else min (notional / denominator) cap)"

text \<open>The sizing block of \<^verbatim>\<open>buildOpenAction\<close>: ATR-based or fixed notional, then the clamp.\<close>

definition position_size :: "threshold_atr_config \<Rightarrow> real \<Rightarrow> real \<Rightarrow> real" where
  "position_size cfg currentPrice atr =
     (if useAtrSizing cfg
      then (let riskAmount = atr * atrSizingMultiplier cfg
            in capped_size (fixedNotional cfg) (currentPrice * riskAmount) (maxSize cfg))
      else capped_size (fixedNotional cfg) currentPrice (maxSize cfg))"

text \<open>
  \<^verbatim>\<open>buildOpenAction\<close>: the state is written before the action is validated, so a
  refused action leaves the new side and size in place.
\<close>

definition buildOpenAction ::
  "threshold_atr_policy \<Rightarrow> alpha_signal \<Rightarrow> real \<Rightarrow> real \<Rightarrow> side \<Rightarrow> (error + action) \<times> threshold_atr_policy" where
  "buildOpenAction p signal currentPrice atr direction =
     (let side = direction;
          size = position_size (pol_cfg p) currentPrice atr;
          bracket = computeBracket (pol_cfg p) currentPrice atr side;
          p' = p\<lparr>pol_st := \<lparr>st_side = Some side, st_size = size\<rparr>\<rparr>
      in (ActionSchema_parse
            \<lparr>a_t = s_t signal, a_symbol = s_symbol signal, a_exch = s_exch signal,
             a_side = side, a_size = size, a_entry = None, a_bracket = Some bracket,
             a_metadata = [(''signalId'', MStr (s_id signal)), (''signalScore'', MNum (s_score signal)),
                           (''signalConf'', MNum (s_conf signal)), (''atr'', MNum (Num atr))]\<rparr>,
          p'))"

definition buildCloseAction ::
  "threshold_atr_policy \<Rightarrow> alpha_signal \<Rightarrow> real \<Rightarrow> (error + action) \<times> threshold_atr_policy" where
  "buildCloseAction p signal currentPrice =
     (case st_side (pol_st p) of
        None \<Rightarrow> (Inl (Error ''Cannot close position: already flat''), p)
      | Some current \<Rightarrow>
          if st_size (pol_st p) = 0 then (Inl (Error ''Cannot close position: already flat''), p)
          else
            (let closeSide = (if current = Buy then Sell else Buy);
                 closeSize = st_size (pol_st p)
             in (ActionSchema_parse
                   \<lparr>a_t = s_t signal, a_symbol = s_symbol signal, a_exch = s_exch signal,
                    a_side = closeSide, a_size = closeSize, a_entry = Some currentPrice,
                    a_bracket = None,
                    a_metadata = [(''signalId'', MStr (s_id signal)),
                                  (''reason'', MStr ''exit_threshold'')]\<rparr>,
                 p\<lparr>pol_st := flat\<rparr>)))"

fun js_abs :: "jsnum \<Rightarrow> jsnum" where
  "js_abs NaN = NaN"
| "js_abs (Num x) = Num \<bar>x\<bar>"

text \<open>
  The hysteresis block of \<^verbatim>\<open>generateAction\<close> (from \<^verbatim>\<open>const absScore\<close> on), reached with
  both feature values present and numeric.
\<close>

definition decide_action ::
  "threshold_atr_policy \<Rightarrow> alpha_signal \<Rightarrow> real \<Rightarrow> real \<Rightarrow> (error + action option) \<times> threshold_atr_policy" where
  "decide_action p signal currentPrice atr =
     (let absScore = js_abs (s_score signal);
          direction = (if js_lt (Num 0) (s_score signal) then Buy else Sell)
      in case st_side (pol_st p) of
           None \<Rightarrow>
             if js_le (Num (enterThreshold (pol_cfg p))) absScore
             then (case buildOpenAction p signal currentPrice atr direction of
                     (r, p') \<Rightarrow> (map_sum id Some r, p'))
             else (Inr None, p)
         | Some current \<Rightarrow>
             (let currentDirection = (if current = Buy then Buy else Sell)
              in if direction \<noteq> currentDirection \<and> js_le (Num (enterThreshold (pol_cfg p))) absScore
                 then (case buildCloseAction p signal currentPrice of
                         (Inl e, p') \<Rightarrow> (Inl e, p')
                       | (Inr closeAction, p') \<Rightarrow>
                           (case buildOpenAction (p'\<lparr>pol_st := flat\<rparr>) signal currentPrice atr direction of
                              (r, p'') \<Rightarrow> (map_sum id Some r, p'')))
                 else if js_lt absScore (Num (exitThreshold (pol_cfg p)))
                 then (case buildCloseAction p signal currentPrice of
                         (r, p') \<Rightarrow> (map_sum id Some r, p'))
                 else (Inr None, p)))"

text \<open>
  \<^verbatim>\<open>generateAction(signal, features)\<close>: the result (a thrown error, \<^verbatim>\<open>null\<close> as \<open>None\<close>,
  or an action) and the policy afterwards. Both inputs are validated first; a
  missing or \<open>NaN\<close> \<^verbatim>\<open>atr_14\<close> or \<^verbatim>\<open>close\<close> returns \<^verbatim>\<open>null\<close>.
\<close>

definition generateAction ::
  "threshold_atr_policy \<Rightarrow> alpha_signal \<Rightarrow> features \<Rightarrow> (error + action option) \<times> threshold_atr_policy" where
  "generateAction p signal features =
     (case AlphaSignalSchema_parse signal of
        Inl e \<Rightarrow> (Inl e, p)
      | Inr _ \<Rightarrow>
          (case FeaturesSchema_parse features of
             Inl e \<Rightarrow> (Inl e, p)
           | Inr _ \<Rightarrow>
               (case (map_of (f_vals features) ''atr_14'', map_of (f_vals features) ''close'') of
                  (Some (Num atr), Some (Num currentPrice)) \<Rightarrow> decide_action p signal currentPrice atr
                | _ \<Rightarrow> (Inr None, p))))"

definition getState :: "threshold_atr_policy \<Rightarrow> policy_state" where
  "getState p = pol_st p"

definition policy_reset :: "threshold_atr_policy \<Rightarrow> threshold_atr_policy" where
  "policy_reset p = p\<lparr>pol_st := flat\<rparr>"

text \<open>The policies a caller can hold: a constructed one, after any calls of \<^verbatim>\<open>generateAction\<close> and \<^verbatim>\<open>reset\<close>.\<close>

inductive policy_reachable :: "threshold_atr_policy \<Rightarrow> bool" where
  policy_new: "new_ThresholdAtrPolicy c = Inr p \<Longrightarrow> policy_reachable p"
| policy_call: "policy_reachable p \<Longrightarrow> policy_reachable (snd (generateAction p signal features))"
| policy_cleared: "policy_reachable p \<Longrightarrow> policy_reachable (policy_reset p)"

section \<open>Test fixtures (packages/plugins/test)\<close>

text \<open>
  The helpers of the test suites, used for the concrete runs below: a configuration
  with no key set, \<^verbatim>\<open>createMockSignal(score, t)\<close> and \<^verbatim>\<open>createMockFeatures(close, atr, t)\<close>
  at \<open>t = 1000\<close>.
\<close>

definition default_input :: threshold_atr_config_input where
  "default_input =
     \<lparr>enterThreshold_in = None, exitThreshold_in = None, fixedNotional_in = None,
      useAtrSizing_in = None, atrSizingMultiplier_in = None, atrTpMultiplier_in = None,
      atrSlMultiplier_in = None, maxSize_in = None, policy_unknown_keys = []\<rparr>"

definition default_policy :: threshold_atr_policy where
  "default_policy =
     \<lparr>pol_cfg = \<lparr>enterThreshold = 5 / 10, exitThreshold = 3 / 10, fixedNotional = 1000,
                 useAtrSizing = False, atrSizingMultiplier = 1, atrTpMultiplier = 2,
                 atrSlMultiplier = 1, maxSize = 10\<rparr>,
      pol_st = flat\<rparr>"

definition mock_signal :: "real \<Rightarrow> alpha_signal" where
  "mock_signal score =
     \<lparr>s_id = ''test-signal-1000'', s_t = 1000, s_symbol = ''BTCUSDT'', s_exch = ''BINANCE'',
      s_tf = ''1m'', s_score = Num score, s_conf = Num (8 / 10), s_horizon_sec = 300,
      s_explain = None\<rparr>"

definition mock_features :: "real \<Rightarrow> real \<Rightarrow> features" where
  "mock_features close atr =
     \<lparr>f_t = 1000, f_exch = ''BINANCE'', f_symbol = ''BTCUSDT'', f_tf = ''1m'',
      f_vals = [(''close'', Num close), (''atr_14'', Num atr)], f_regime = Some ''ranging''\<rparr>"

text \<open>
  Decimal printing, as the two library functions do it for magnitudes below
  \<open>10^21\<close>: \<^verbatim>\<open>toFixed(d)\<close> rounds half up on the magnitude and keeps \<open>d\<close> digits
  after the point. The value printed is the real it is given, which is what the
  library prints of a double of that value; a decimal literal that is no double
  stands in the code for the nearest double, whose last digit can round the other
  way.
\<close>

function decimal :: "nat \<Rightarrow> string" where
  "decimal n = (if n < 10 then [''0123456789'' ! n] else decimal (n div 10) @ [''0123456789'' ! (n mod 10)])"
  by pat_completeness auto
termination
  by (relation "measure id") auto

declare decimal.simps [simp del]

definition decimal_fixed :: "real \<Rightarrow> nat \<Rightarrow> string" where
  "decimal_fixed x d =
     (let n = nat \<lfloor>\<bar>x\<bar> * 10 ^ d + 1 / 2\<rfloor>;
          digits = decimal n;
          padded = replicate (Suc d - length digits) (CHR ''0'') @ digits;
          whole = take (length padded - d) padded;
          fraction = drop (length padded - d) padded
      in (if x < 0 then ''-'' else []) @ whole @ (if d = 0 then [] else ''.'' @ fraction))"

definition decimal_js :: js_builtins where
  "decimal_js =
     \<lparr>toFixed = decimal_fixed,
      numberToString = (\<lambda>n. if n < 0 then ''-'' @ decimal (nat (- n)) else decimal (nat n))\<rparr>"

definition default_macd_input :: macd_config_input where
  "default_macd_input =
     \<lparr>minHistogram_in = None, macd_horizonSec_in = None, useCrossover_in = None,
      macd_unknown_keys = []\<rparr>"

definition fresh_macd :: macd_alpha where
  "fresh_macd =
     \<lparr>macd_cfg = \<lparr>minHistogram = 1 / 10000, macd_horizonSec = 300, useCrossover = True\<rparr>,
      macd_st = \<lparr>prevMacd = None, prevSignal = None, prevHistogram = None\<rparr>\<rparr>"

text \<open>\<^verbatim>\<open>createMockFeatures(macd, signal, histogram, t)\<close> of the MACD test suite, at \<open>t = 1000\<close>.\<close>

definition macd_features :: "jsnum \<Rightarrow> jsnum \<Rightarrow> jsnum \<Rightarrow> features" where
  "macd_features macd signal histogram =
     \<lparr>f_t = 1000, f_exch = ''BINANCE'', f_symbol = ''BTCUSDT'', f_tf = ''1m'',
      f_vals = [(''macd'', macd), (''macd_signal'', signal), (''macd_histogram'', histogram),
                (''close'', Num 100)],
      f_regime = Some ''ranging''\<rparr>"

text \<open>The default instance after observing MACD -0.01, signal 0.0, histogram -0.01.\<close>

definition macd_below :: macd_alpha where
  "macd_below =
     fresh_macd\<lparr>macd_st := \<lparr>prevMacd = Some (- 1 / 100), prevSignal = Some 0,
                              prevHistogram = Some (- 1 / 100)\<rparr>\<rparr>"

definition default_ar4_input :: ar4_config_input where
  "default_ar4_input =
     \<lparr>fitWindow_in = None, ar4_horizonSec_in = None, minRSquared_in = None, ar4_unknown_keys = []\<rparr>"

definition fresh_ar4 :: ar4_alpha where
  "fresh_ar4 =
     \<lparr>ar4_cfg = \<lparr>fitWindow = 100, ar4_horizonSec = 300, minRSquared = 1 / 10\<rparr>,
      coefficients = None, returnHistory = []\<rparr>"

text \<open>\<^verbatim>\<open>createMockFeatures(return_1, t)\<close> of the AR(4) test suite, at \<open>t = 1000\<close>.\<close>

definition ar4_features :: "jsnum \<Rightarrow> features" where
  "ar4_features return_1 =
     \<lparr>f_t = 1000, f_exch = ''BINANCE'', f_symbol = ''BTCUSDT'', f_tf = ''1m'',
      f_vals = [(''return_1'', return_1), (''close'', Num 100)], f_regime = Some ''ranging''\<rparr>"

definition inverted_input :: threshold_atr_config_input where
  "inverted_input =
     default_input\<lparr>enterThreshold_in := Some (Num (3 / 10)), exitThreshold_in := Some (Num (5 / 10))\<rparr>"

text \<open>
  A rounding much coarser than that of doubles, to the nearest multiple of
  \<open>2\<^sup>-\<^sup>1\<^sup>0\<close>, to run the matrix inversion with.
\<close>

definition fixed_point :: "real \<Rightarrow> real" where
  "fixed_point x = of_int \<lfloor>x * 1024 + 1 / 2\<rfloor> / 1024"

text \<open>
  A configuration with a very small notional, \<open>2\<^sup>-\<^sup>6\<^sup>0\<^sup>0\<close> (about \<open>2.4e-181\<close>, a
  positive double), and the policy the constructor makes of it.
\<close>

definition tiny_notional_input :: threshold_atr_config_input where
  "tiny_notional_input = default_input\<lparr>fixedNotional_in := Some (Num (1 / 2 ^ 600))\<rparr>"

definition tiny_notional_policy :: threshold_atr_policy where
  "tiny_notional_policy =
     default_policy\<lparr>pol_cfg := (pol_cfg default_policy)\<lparr>fixedNotional := 1 / 2 ^ 600\<rparr>\<rparr>"

text \<open>That policy holding a side with a size of zero.\<close>

definition refused_policy :: threshold_atr_policy where
  "refused_policy = tiny_notional_policy\<lparr>pol_st := \<lparr>st_side = Some Buy, st_size = 0\<rparr>\<rparr>"

text \<open>The default policy after opening a long position at score 0.8, price 50000, ATR 500.\<close>

definition long_policy :: threshold_atr_policy where
  "long_policy = default_policy\<lparr>pol_st := \<lparr>st_side = Some Buy, st_size = 1 / 50\<rparr>\<rparr>"

section \<open>Invariants and reference notions\<close>

text \<open>
  The product of two \<open>n \<times> n\<close> matrices given as lists of rows, \<open>n\<close> being the number
  of rows of the right factor.
\<close>

definition mat_mul :: "real list list \<Rightarrow> real list list \<Rightarrow> real list list" where
  "mat_mul A B = map (\<lambda>row. map (\<lambda>j. \<Sum>k<length B. row ! k * B ! k ! j) [0..<length B]) A"

text \<open>
  What partial pivoting has to select in column \<open>i\<close>: the largest magnitude among
  the entries on and below the diagonal.
\<close>

definition column_peak :: "nat \<Rightarrow> real list list \<Rightarrow> nat \<Rightarrow> real" where
  "column_peak n aug i = Max (set (map (\<lambda>k. \<bar>aug ! k ! i\<bar>) [i..<n]))"

text \<open>
  The singular-matrix condition: at some pass \<open>k\<close> of the elimination of \<open>M\<close> the
  largest magnitude on and below the diagonal of column \<open>k\<close> is below \<open>1e-10\<close>.
\<close>

definition small_pivot_met :: "(real \<Rightarrow> real) \<Rightarrow> real list list \<Rightarrow> bool" where
  "small_pivot_met rd M =
     (\<exists>k<length M.
        case passes rd (length M) k (augment M) of
          None \<Rightarrow> False
        | Some a \<Rightarrow> column_peak (length M) a k < 1 / 10 ^ 10)"

definition square :: "real list list \<Rightarrow> bool" where
  "square M = list_all (\<lambda>row. length row = length M) M"

text \<open>
  The invariants of the elimination loop on the augmented matrix \<open>[B | C]\<close> of a
  matrix \<open>M\<close>: its shape; every row satisfies \<open>B = C \<cdot> M\<close>; and the columns already
  processed are unit columns.
\<close>

definition well_shaped :: "nat \<Rightarrow> real list list \<Rightarrow> bool" where
  "well_shaped n aug = (length aug = n \<and> (\<forall>k<n. length (aug ! k) = 2 * n))"

definition rows_combine :: "real list list \<Rightarrow> nat \<Rightarrow> real list list \<Rightarrow> bool" where
  "rows_combine M n aug =
     (\<forall>k<n. \<forall>j<n. aug ! k ! j = (\<Sum>m<n. aug ! k ! (n + m) * M ! m ! j))"

definition unit_columns :: "nat \<Rightarrow> nat \<Rightarrow> real list list \<Rightarrow> bool" where
  "unit_columns n i aug = (\<forall>k<n. \<forall>j<i. aug ! k ! j = (if k = j then 1 else 0))"

text \<open>
  A fit with a nonzero \<open>R\<^sup>2\<close> was made on at least 10 returns, and the history
  has not become shorter since.
\<close>

definition ar4_inv :: "ar4_alpha \<Rightarrow> bool" where
  "ar4_inv a =
     (case coefficients a of
        None \<Rightarrow> True
      | Some c \<Rightarrow> length (returnHistory a) < 10 \<longrightarrow> rSquared c = 0)"

text \<open>What the MACD constructor establishes of a configuration.\<close>

definition macd_config_valid :: "macd_config \<Rightarrow> bool" where
  "macd_config_valid cfg = (0 \<le> minHistogram cfg \<and> 0 < macd_horizonSec cfg)"

text \<open>What the constructor establishes of a configuration, as far as the state machine needs it.\<close>

definition config_valid :: "threshold_atr_config \<Rightarrow> bool" where
  "config_valid cfg =
     (exitThreshold cfg \<le> enterThreshold cfg \<and> 0 < fixedNotional cfg \<and> 0 < maxSize cfg)"

text \<open>The policy state is flat (side \<^verbatim>\<open>null\<close>) exactly when its size is zero.\<close>

definition state_inv :: "policy_state \<Rightarrow> bool" where
  "state_inv st = (st_side st = None \<longleftrightarrow> st_size st = 0)"

section \<open>Properties of the ratio utilities\<close>








section \<open>Properties of the fixtures and schemas\<close>

lemma tf_1m: "tf_matches ''1m''"
  by (simp add: tf_matches_def is_digit_def)

lemma mock_signal_ok: "- 1 \<le> x \<Longrightarrow> x \<le> 1 \<Longrightarrow> AlphaSignalSchema_ok (mock_signal x)"
  by (simp add: AlphaSignalSchema_ok_def mock_signal_def tf_1m)

lemma mock_features_ok: "FeaturesSchema_ok (mock_features c a)"
  by (simp add: FeaturesSchema_ok_def features_header_ok_def mock_features_def tf_1m)

lemma mock_features_vals:
  "map_of (f_vals (mock_features c a)) ''atr_14'' = Some (Num a)"
  "map_of (f_vals (mock_features c a)) ''close'' = Some (Num c)"
  by (simp_all add: mock_features_def)

lemma default_parse: "ThresholdAtrConfigSchema_parse default_input = Inr (pol_cfg default_policy)"
  by (simp add: ThresholdAtrConfigSchema_parse_def ThresholdAtrConfigSchema_ok_def
      default_input_def default_policy_def)

lemma new_default: "new_ThresholdAtrPolicy default_input = Inr default_policy"
  by (simp add: new_ThresholdAtrPolicy_def default_parse) (simp add: default_policy_def)

lemma signal_ok_fields:
  "AlphaSignalSchema_ok s \<Longrightarrow> 0 < s_t s \<and> s_symbol s \<noteq> [] \<and> s_exch s \<noteq> []"
  by (simp add: AlphaSignalSchema_ok_def)

section \<open>Properties of the policy\<close>

subsection \<open>Construction\<close>

lemma number_field_pos: "number_field_ok (\<lambda>x. 0 < x) v \<Longrightarrow> 0 < d \<Longrightarrow> 0 < number_field d v"
  by (cases "(d, v)" rule: number_field.cases) auto

lemma parse_config_positive:
  "ThresholdAtrConfigSchema_parse c = Inr cfg \<Longrightarrow> 0 < fixedNotional cfg \<and> 0 < maxSize cfg"
  by (auto simp: ThresholdAtrConfigSchema_parse_def ThresholdAtrConfigSchema_ok_def number_field_pos
      split: if_splits)

lemma new_policy_valid:
  "new_ThresholdAtrPolicy c = Inr p \<Longrightarrow> config_valid (pol_cfg p) \<and> pol_st p = flat"
  by (auto simp: new_ThresholdAtrPolicy_def config_valid_def split: sum.splits if_splits
      dest: parse_config_positive)

text \<open>
  C3: for a configuration the schema accepts, the constructor throws exactly when
  \<open>enterThreshold < exitThreshold\<close>, always with the same error; otherwise it returns
  a flat policy holding the parsed configuration.
\<close>

theorem constructor_throws_iff_inverted_thresholds:
  assumes "ThresholdAtrConfigSchema_parse c = Inr cfg"
  shows "(isl (new_ThresholdAtrPolicy c) \<longleftrightarrow> enterThreshold cfg < exitThreshold cfg) \<and>
         new_ThresholdAtrPolicy c =
           (if enterThreshold cfg < exitThreshold cfg
            then Inl (Error ''enterThreshold must be >= exitThreshold for proper hysteresis'')
            else Inr \<lparr>pol_cfg = cfg, pol_st = \<lparr>st_side = None, st_size = 0\<rparr>\<rparr>)"
  using assms by (simp add: new_ThresholdAtrPolicy_def flat_def)

lemma inverted_parse:
  "ThresholdAtrConfigSchema_parse inverted_input =
     Inr ((pol_cfg default_policy)\<lparr>enterThreshold := 3 / 10, exitThreshold := 5 / 10\<rparr>)"
  by (simp add: ThresholdAtrConfigSchema_parse_def ThresholdAtrConfigSchema_ok_def
      inverted_input_def default_input_def default_policy_def)

theorem constructor_throws_iff_inverted_thresholds_witness:
  "ThresholdAtrConfigSchema_parse default_input = Inr (pol_cfg default_policy) \<and>
   new_ThresholdAtrPolicy default_input = Inr default_policy \<and>
   new_ThresholdAtrPolicy inverted_input =
     Inl (Error ''enterThreshold must be >= exitThreshold for proper hysteresis'')"
  using constructor_throws_iff_inverted_thresholds [OF default_parse]
    constructor_throws_iff_inverted_thresholds [OF inverted_parse]
  by (simp add: default_parse) (simp add: default_policy_def flat_def)

subsection \<open>Configuration and state of a reachable policy\<close>

lemma buildOpenAction_cfg: "pol_cfg (snd (buildOpenAction p s c a d)) = pol_cfg p"
  by (simp add: buildOpenAction_def Let_def)

lemma buildCloseAction_cfg: "pol_cfg (snd (buildCloseAction p s c)) = pol_cfg p"
  by (simp add: buildCloseAction_def Let_def split: option.splits)

lemma buildOpenAction_state:
  "pol_st (snd (buildOpenAction p s c a d)) =
     \<lparr>st_side = Some d, st_size = position_size (pol_cfg p) c a\<rparr>"
  by (simp add: buildOpenAction_def Let_def)

lemma buildCloseAction_state:
  "pol_st (snd (buildCloseAction p s c)) = pol_st p \<or> pol_st (snd (buildCloseAction p s c)) = flat"
  by (simp add: buildCloseAction_def Let_def split: option.splits)

lemma generateAction_cases:
  "generateAction p s f = (Inl ZodError, p) \<or> generateAction p s f = (Inr None, p) \<or>
   (\<exists>c a. generateAction p s f = decide_action p s c a)"
  unfolding generateAction_def AlphaSignalSchema_parse_def FeaturesSchema_parse_def
  by (auto split: option.split jsnum.split)

lemma decide_action_cfg: "pol_cfg (snd (decide_action p s c a)) = pol_cfg p"
  unfolding decide_action_def Let_def case_prod_unfold
  by (simp split: sum.split option.split add: buildOpenAction_cfg buildCloseAction_cfg)

lemma generateAction_cfg: "pol_cfg (snd (generateAction p s f)) = pol_cfg p"
  using generateAction_cases[of p s f] by (auto simp: decide_action_cfg)

lemma reachable_config: "policy_reachable p \<Longrightarrow> config_valid (pol_cfg p)"
proof (induction rule: policy_reachable.induct)
  case (policy_new c p)
  then show ?case using new_policy_valid[of c p] by simp
next
  case (policy_call p signal features)
  then show ?case by (simp add: generateAction_cfg)
next
  case (policy_cleared p)
  then show ?case by (simp add: policy_reset_def)
qed

lemma generateAction_decide:
  assumes "AlphaSignalSchema_ok signal" "FeaturesSchema_ok features"
    "map_of (f_vals features) ''atr_14'' = Some (Num atr)"
    "map_of (f_vals features) ''close'' = Some (Num currentPrice)"
  shows "generateAction p signal features = decide_action p signal currentPrice atr"
  using assms by (simp add: generateAction_def AlphaSignalSchema_parse_def FeaturesSchema_parse_def)

lemma open_long_run:
  "generateAction default_policy (mock_signal (8 / 10)) (mock_features 50000 500) =
     (Inr (Some \<lparr>a_t = 1000, a_symbol = ''BTCUSDT'', a_exch = ''BINANCE'', a_side = Buy,
                 a_size = 1 / 50, a_entry = None,
                 a_bracket = Some \<lparr>tp = Some 51000, sl = Some 49500, trail = None\<rparr>,
                 a_metadata = [(''signalId'', MStr ''test-signal-1000''),
                               (''signalScore'', MNum (Num (8 / 10))),
                               (''signalConf'', MNum (Num (8 / 10))),
                               (''atr'', MNum (Num 500))]\<rparr>),
      long_policy)"
proof -
  have "generateAction default_policy (mock_signal (8 / 10)) (mock_features 50000 500) =
        decide_action default_policy (mock_signal (8 / 10)) 50000 500"
    by (rule generateAction_decide) (simp_all add: mock_signal_ok mock_features_ok mock_features_vals)
  then show ?thesis
    by (simp add: decide_action_def buildOpenAction_def position_size_def capped_size_def
        computeBracket_def ActionSchema_parse_def ActionSchema_ok_def BracketSchema_ok_def
        default_policy_def long_policy_def flat_def mock_signal_def Let_def)
qed

lemma long_policy_reachable: "policy_reachable long_policy"
proof -
  have "policy_reachable default_policy"
    using new_default by (rule policy_new)
  then have "policy_reachable (snd (generateAction default_policy (mock_signal (8 / 10))
      (mock_features 50000 500)))"
    by (rule policy_call)
  then show ?thesis unfolding open_long_run by simp
qed

text \<open>
  A call that returns (an action or \<^verbatim>\<open>null\<close>) keeps the invariant: an open action is
  returned only when \<^verbatim>\<open>ActionSchema\<close> has found its size positive.
\<close>

lemma returning_call_keeps_state_inv:
  assumes "state_inv (pol_st p)" "fst (generateAction p s f) = Inr r"
  shows "state_inv (pol_st (snd (generateAction p s f)))"
proof -
  have o: "state_inv (pol_st (snd (buildOpenAction q s c a d)))"
    if "map_sum id Some (fst (buildOpenAction q s c a d)) = Inr r" for q c a d
    using that
    by (auto simp: buildOpenAction_def Let_def ActionSchema_parse_def ActionSchema_ok_def
        state_inv_def split: if_splits)
  have c: "state_inv (pol_st (snd (buildCloseAction p s c)))" for c
    using buildCloseAction_state[of p s c] assms(1) by (auto simp: state_inv_def flat_def)
  have d: "state_inv (pol_st (snd (decide_action p s c a)))"
    if "fst (decide_action p s c a) = Inr r" for c a
    using that assms(1) c[of c]
    unfolding decide_action_def Let_def case_prod_unfold
    by (auto split: option.splits if_splits sum.splits intro: o)
  from generateAction_cases[of p s f] show ?thesis
    using assms d by auto
qed

lemma open_refused_on_zero_size:
  assumes "pol_st p = flat" "s_score s = Num x" "0 < x" "enterThreshold (pol_cfg p) \<le> x"
    "position_size (pol_cfg p) c a = 0"
  shows "decide_action p s c a =
         (Inl ZodError, p\<lparr>pol_st := \<lparr>st_side = Some Buy, st_size = 0\<rparr>\<rparr>)"
  using assms
  by (simp add: decide_action_def buildOpenAction_def ActionSchema_parse_def ActionSchema_ok_def
      flat_def Let_def)

text \<open>
  C9 fails on the code: \<^verbatim>\<open>buildOpenAction\<close> writes the state before
  \<^verbatim>\<open>ActionSchema.parse\<close> validates the action. With a notional of \<open>2\<^sup>-\<^sup>6\<^sup>0\<^sup>0\<close> and a
  close price of \<open>2\<^sup>6\<^sup>0\<^sup>0\<close> the double quotient underflows to zero, the call throws
  on the zero size, and the policy is left with side \<^verbatim>\<open>buy\<close> and size exactly zero.
  An exit signal then throws \<^verbatim>\<open>already flat\<close> although the side is not \<^verbatim>\<open>null\<close>.
\<close>

theorem refused_open_leaves_side_with_zero_size:
  "new_ThresholdAtrPolicy tiny_notional_input = Inr tiny_notional_policy \<and>
   generateAction tiny_notional_policy (mock_signal (8 / 10)) (mock_features (2 ^ 600) 1) =
     (Inl ZodError, refused_policy) \<and>
   policy_reachable refused_policy \<and>
   getState refused_policy = \<lparr>st_side = Some Buy, st_size = 0\<rparr> \<and>
   \<not> (st_side (getState refused_policy) = None \<longleftrightarrow> st_size (getState refused_policy) = 0) \<and>
   generateAction refused_policy (mock_signal (2 / 10)) (mock_features 50100 500) =
     (Inl (Error ''Cannot close position: already flat''), refused_policy)"
proof -
  have n: "new_ThresholdAtrPolicy tiny_notional_input = Inr tiny_notional_policy"
    by (simp add: new_ThresholdAtrPolicy_def ThresholdAtrConfigSchema_parse_def
        ThresholdAtrConfigSchema_ok_def tiny_notional_input_def tiny_notional_policy_def
        default_input_def default_policy_def flat_def)
  have size: "position_size (pol_cfg tiny_notional_policy) (2 ^ 600) 1 = 0"
    by (simp add: position_size_def capped_size_def tiny_notional_policy_def default_policy_def)
  have "generateAction tiny_notional_policy (mock_signal (8 / 10)) (mock_features (2 ^ 600) 1) =
        decide_action tiny_notional_policy (mock_signal (8 / 10)) (2 ^ 600) 1"
    by (rule generateAction_decide) (simp_all add: mock_signal_ok mock_features_ok mock_features_vals)
  moreover have "decide_action tiny_notional_policy (mock_signal (8 / 10)) (2 ^ 600) 1 =
      (Inl ZodError, tiny_notional_policy\<lparr>pol_st := \<lparr>st_side = Some Buy, st_size = 0\<rparr>\<rparr>)"
    by (rule open_refused_on_zero_size[where x = "8 / 10", OF _ _ _ _ size])
      (simp_all add: tiny_notional_policy_def default_policy_def mock_signal_def)
  ultimately have g: "generateAction tiny_notional_policy (mock_signal (8 / 10))
        (mock_features (2 ^ 600) 1) = (Inl ZodError, refused_policy)"
    unfolding refused_policy_def by (rule trans)
  have "policy_reachable tiny_notional_policy"
    using n by (rule policy_new)
  then have "policy_reachable (snd (generateAction tiny_notional_policy (mock_signal (8 / 10))
      (mock_features (2 ^ 600) 1)))"
    by (rule policy_call)
  then have r: "policy_reachable refused_policy"
    unfolding g by simp
  have "generateAction refused_policy (mock_signal (2 / 10)) (mock_features 50100 500) =
        decide_action refused_policy (mock_signal (2 / 10)) 50100 500"
    by (rule generateAction_decide) (simp_all add: mock_signal_ok mock_features_ok mock_features_vals)
  then have c: "generateAction refused_policy (mock_signal (2 / 10)) (mock_features 50100 500) =
      (Inl (Error ''Cannot close position: already flat''), refused_policy)"
    by (simp add: decide_action_def buildCloseAction_def refused_policy_def
        tiny_notional_policy_def default_policy_def mock_signal_def Let_def)
  have s: "getState refused_policy = \<lparr>st_side = Some Buy, st_size = 0\<rparr>"
    by (simp add: getState_def refused_policy_def)
  show ?thesis using n g r c s by simp
qed

subsection \<open>Exit and reversal\<close>

text \<open>
  C2 (as the code has it): for a policy in a position of positive size, a call
  with a valid signal of \<open>|score| < exitThreshold\<close> and valid features carrying
  \<^verbatim>\<open>atr_14\<close> and a positive \<^verbatim>\<open>close\<close> returns the close action (opposite side, the full
  current size, entry at the close price, reason \<^verbatim>\<open>exit_threshold\<close>), and the policy
  is flat afterwards.
\<close>

theorem exit_threshold_closes_position:
  assumes "policy_reachable p"
    and "st_side (pol_st p) = Some current" and "0 < st_size (pol_st p)"
    and "AlphaSignalSchema_ok signal" and "FeaturesSchema_ok features"
    and "s_score signal = Num score" and "\<bar>score\<bar> < exitThreshold (pol_cfg p)"
    and "map_of (f_vals features) ''atr_14'' = Some (Num atr)"
    and "map_of (f_vals features) ''close'' = Some (Num currentPrice)"
    and "0 < currentPrice"
  shows "generateAction p signal features =
           (Inr (Some \<lparr>a_t = s_t signal, a_symbol = s_symbol signal, a_exch = s_exch signal,
                       a_side = (if current = Buy then Sell else Buy),
                       a_size = st_size (pol_st p), a_entry = Some currentPrice, a_bracket = None,
                       a_metadata = [(''signalId'', MStr (s_id signal)),
                                     (''reason'', MStr ''exit_threshold'')]\<rparr>),
            p\<lparr>pol_st := \<lparr>st_side = None, st_size = 0\<rparr>\<rparr>)"
proof -
  have cfg: "exitThreshold (pol_cfg p) \<le> enterThreshold (pol_cfg p)"
    using reachable_config[OF assms(1)] by (simp add: config_valid_def)
  have close: "buildCloseAction p signal currentPrice =
           (Inr \<lparr>a_t = s_t signal, a_symbol = s_symbol signal, a_exch = s_exch signal,
                       a_side = (if current = Buy then Sell else Buy),
                       a_size = st_size (pol_st p), a_entry = Some currentPrice, a_bracket = None,
                       a_metadata = [(''signalId'', MStr (s_id signal)),
                                     (''reason'', MStr ''exit_threshold'')]\<rparr>,
            p\<lparr>pol_st := flat\<rparr>)"
    using assms(2,3,10) signal_ok_fields[OF assms(4)]
    by (simp add: buildCloseAction_def Let_def ActionSchema_parse_def ActionSchema_ok_def)
  have "decide_action p signal currentPrice atr =
          (case buildCloseAction p signal currentPrice of (r, p') \<Rightarrow> (map_sum id Some r, p'))"
    using assms(2,6,7) cfg by (simp add: decide_action_def Let_def)
  then show ?thesis
    using generateAction_decide[OF assms(4,5,8,9)] close by (simp add: flat_def)
qed

text \<open>
  The test "closes position when signal drops below exit threshold": the long
  position of size 0.02 is closed by a sell of 0.02 at score 0.2.
\<close>

theorem exit_threshold_closes_position_witness:
  "policy_reachable long_policy \<and>
   generateAction long_policy (mock_signal (2 / 10)) (mock_features 50100 500) =
     (Inr (Some \<lparr>a_t = 1000, a_symbol = ''BTCUSDT'', a_exch = ''BINANCE'', a_side = Sell,
                 a_size = 1 / 50, a_entry = Some 50100, a_bracket = None,
                 a_metadata = [(''signalId'', MStr ''test-signal-1000''),
                               (''reason'', MStr ''exit_threshold'')]\<rparr>),
      default_policy)"
proof -
  have s: "AlphaSignalSchema_ok (mock_signal (2 / 10))"
    by (simp add: mock_signal_ok)
  have "generateAction long_policy (mock_signal (2 / 10)) (mock_features 50100 500) =
     (Inr (Some \<lparr>a_t = s_t (mock_signal (2 / 10)), a_symbol = s_symbol (mock_signal (2 / 10)),
                 a_exch = s_exch (mock_signal (2 / 10)),
                 a_side = (if Buy = Buy then Sell else Buy),
                 a_size = st_size (pol_st long_policy), a_entry = Some 50100, a_bracket = None,
                 a_metadata = [(''signalId'', MStr (s_id (mock_signal (2 / 10)))),
                               (''reason'', MStr ''exit_threshold'')]\<rparr>),
      long_policy\<lparr>pol_st := \<lparr>st_side = None, st_size = 0\<rparr>\<rparr>)"
    by (rule exit_threshold_closes_position [OF long_policy_reachable _ _ s mock_features_ok _ _
          mock_features_vals, where score = "2 / 10"])
       (simp_all add: long_policy_def default_policy_def mock_signal_def)
  then show ?thesis
    using long_policy_reachable
    by (simp add: long_policy_def default_policy_def mock_signal_def flat_def)
qed

text \<open>
  The claim as the specification words it (any numeric \<^verbatim>\<open>close\<close>) fails for a close
  price that is not positive: the close action carries \<^verbatim>\<open>entry: currentPrice\<close>, which
  \<^verbatim>\<open>ActionSchema\<close> requires to be positive. With \<^verbatim>\<open>close = 0\<close> the call throws a
  \<open>ZodError\<close> instead of returning the close action (the state is flat all the same).
\<close>

theorem exit_threshold_nonpositive_close_counterexample:
  "policy_reachable long_policy \<and> st_side (pol_st long_policy) = Some Buy \<and>
   AlphaSignalSchema_ok (mock_signal (2 / 10)) \<and> FeaturesSchema_ok (mock_features 0 500) \<and>
   \<bar>2 / 10\<bar> < exitThreshold (pol_cfg long_policy) \<and>
   map_of (f_vals (mock_features 0 500)) ''atr_14'' = Some (Num 500) \<and>
   map_of (f_vals (mock_features 0 500)) ''close'' = Some (Num 0) \<and>
   generateAction long_policy (mock_signal (2 / 10)) (mock_features 0 500) =
     (Inl ZodError, default_policy)"
proof -
  have s: "AlphaSignalSchema_ok (mock_signal (2 / 10))"
    by (simp add: mock_signal_ok)
  have "generateAction long_policy (mock_signal (2 / 10)) (mock_features 0 500) =
        decide_action long_policy (mock_signal (2 / 10)) 0 500"
    by (rule generateAction_decide [OF s mock_features_ok mock_features_vals])
  then have "generateAction long_policy (mock_signal (2 / 10)) (mock_features 0 500) =
     (Inl ZodError, default_policy)"
    by (simp add: decide_action_def buildCloseAction_def ActionSchema_parse_def ActionSchema_ok_def
        long_policy_def default_policy_def mock_signal_def flat_def Let_def)
  then show ?thesis
    using long_policy_reachable s
    by (simp add: mock_features_ok mock_features_vals) (simp add: long_policy_def default_policy_def)
qed

text \<open>
  C1 (as the code has it): for a policy in a position of positive size, a call with
  a valid signal of the opposite sign and \<open>|score| \<ge> enterThreshold\<close>, and valid
  features carrying \<^verbatim>\<open>atr_14\<close> and a positive \<^verbatim>\<open>close\<close> for which the new order passes
  \<^verbatim>\<open>ActionSchema\<close> (positive size, positive take-profit and stop-loss), returns only
  the open action for the opposite side, no close action, and the state afterwards
  holds the new side and the new size.
\<close>

theorem reversal_returns_open_action:
  assumes "policy_reachable p"
    and "st_side (pol_st p) = Some current" and "0 < st_size (pol_st p)"
    and "AlphaSignalSchema_ok signal" and "FeaturesSchema_ok features"
    and "s_score signal = Num score"
    and "(current = Buy \<and> score < 0) \<or> (current = Sell \<and> 0 < score)"
    and "enterThreshold (pol_cfg p) \<le> \<bar>score\<bar>"
    and "map_of (f_vals features) ''atr_14'' = Some (Num atr)"
    and "map_of (f_vals features) ''close'' = Some (Num currentPrice)"
    and "0 < currentPrice"
    and "direction = (if current = Buy then Sell else Buy)"
    and "0 < position_size (pol_cfg p) currentPrice atr"
    and "BracketSchema_ok (computeBracket (pol_cfg p) currentPrice atr direction)"
  shows "generateAction p signal features =
           (Inr (Some \<lparr>a_t = s_t signal, a_symbol = s_symbol signal, a_exch = s_exch signal,
                       a_side = direction,
                       a_size = position_size (pol_cfg p) currentPrice atr, a_entry = None,
                       a_bracket = Some (computeBracket (pol_cfg p) currentPrice atr direction),
                       a_metadata = [(''signalId'', MStr (s_id signal)),
                                     (''signalScore'', MNum (s_score signal)),
                                     (''signalConf'', MNum (s_conf signal)),
                                     (''atr'', MNum (Num atr))]\<rparr>),
            p\<lparr>pol_st := \<lparr>st_side = Some direction,
                           st_size = position_size (pol_cfg p) currentPrice atr\<rparr>\<rparr>)"
proof -
  have close: "\<exists>c. buildCloseAction p signal currentPrice = (Inr c, p\<lparr>pol_st := flat\<rparr>)"
    using assms(2,3,11) signal_ok_fields[OF assms(4)]
    by (simp add: buildCloseAction_def Let_def ActionSchema_parse_def ActionSchema_ok_def)
  have dir: "(if js_lt (Num 0) (s_score signal) then Buy else Sell) = direction"
    using assms(6,7,12) by (cases current) auto
  have "decide_action p signal currentPrice atr =
          (case buildOpenAction (p\<lparr>pol_st := flat\<rparr>) signal currentPrice atr direction of
             (r, p'') \<Rightarrow> (map_sum id Some r, p''))"
    using assms(2,6,7,8) close dir
    by (cases current) (auto simp add: decide_action_def Let_def)
  then show ?thesis
    using generateAction_decide[OF assms(4,5,9,10)] signal_ok_fields[OF assms(4)] assms(13,14)
    by (simp add: buildOpenAction_def Let_def ActionSchema_parse_def ActionSchema_ok_def)
qed

text \<open>
  The test "reverses position on strong opposite signal": the long position is
  replaced by a short one at score -0.9, price 50100, ATR 500.
\<close>

theorem reversal_returns_open_action_witness:
  "policy_reachable long_policy \<and>
   generateAction long_policy (mock_signal (- 9 / 10)) (mock_features 50100 500) =
     (Inr (Some \<lparr>a_t = 1000, a_symbol = ''BTCUSDT'', a_exch = ''BINANCE'', a_side = Sell,
                 a_size = 10 / 501, a_entry = None,
                 a_bracket = Some \<lparr>tp = Some 49100, sl = Some 50600, trail = None\<rparr>,
                 a_metadata = [(''signalId'', MStr ''test-signal-1000''),
                               (''signalScore'', MNum (Num (- 9 / 10))),
                               (''signalConf'', MNum (Num (8 / 10))),
                               (''atr'', MNum (Num 500))]\<rparr>),
      default_policy\<lparr>pol_st := \<lparr>st_side = Some Sell, st_size = 10 / 501\<rparr>\<rparr>)"
proof -
  have s: "AlphaSignalSchema_ok (mock_signal (- 9 / 10))"
    by (simp add: mock_signal_ok)
  have "generateAction long_policy (mock_signal (- 9 / 10)) (mock_features 50100 500) =
           (Inr (Some \<lparr>a_t = s_t (mock_signal (- 9 / 10)),
                       a_symbol = s_symbol (mock_signal (- 9 / 10)),
                       a_exch = s_exch (mock_signal (- 9 / 10)),
                       a_side = Sell,
                       a_size = position_size (pol_cfg long_policy) 50100 500, a_entry = None,
                       a_bracket = Some (computeBracket (pol_cfg long_policy) 50100 500 Sell),
                       a_metadata = [(''signalId'', MStr (s_id (mock_signal (- 9 / 10)))),
                                     (''signalScore'', MNum (s_score (mock_signal (- 9 / 10)))),
                                     (''signalConf'', MNum (s_conf (mock_signal (- 9 / 10)))),
                                     (''atr'', MNum (Num 500))]\<rparr>),
            long_policy\<lparr>pol_st := \<lparr>st_side = Some Sell,
                           st_size = position_size (pol_cfg long_policy) 50100 500\<rparr>\<rparr>)"
    by (rule reversal_returns_open_action [OF long_policy_reachable _ _ s mock_features_ok _ _ _
          mock_features_vals, where score = "- 9 / 10" and current = Buy])
       (simp_all add: long_policy_def default_policy_def mock_signal_def position_size_def
          capped_size_def computeBracket_def BracketSchema_ok_def Let_def)
  then show ?thesis
    using long_policy_reachable
    by (simp add: long_policy_def default_policy_def mock_signal_def position_size_def
        capped_size_def computeBracket_def BracketSchema_ok_def Let_def)
qed

text \<open>
  The claim as the specification words it (an open action is returned for any
  numeric \<^verbatim>\<open>atr_14\<close> and \<^verbatim>\<open>close\<close>) fails when the bracket of the new position is not
  positive: at price 100 and ATR 60 the short take-profit is \<open>100 - 2 * 60 = -20\<close>,
  \<^verbatim>\<open>ActionSchema.parse\<close> throws, and no action is returned (the state is already the
  short position).
\<close>

theorem reversal_refused_bracket_counterexample:
  "policy_reachable long_policy \<and> st_side (pol_st long_policy) = Some Buy \<and>
   AlphaSignalSchema_ok (mock_signal (- 9 / 10)) \<and> FeaturesSchema_ok (mock_features 100 60) \<and>
   enterThreshold (pol_cfg long_policy) \<le> \<bar>- 9 / 10\<bar> \<and>
   map_of (f_vals (mock_features 100 60)) ''atr_14'' = Some (Num 60) \<and>
   map_of (f_vals (mock_features 100 60)) ''close'' = Some (Num 100) \<and>
   generateAction long_policy (mock_signal (- 9 / 10)) (mock_features 100 60) =
     (Inl ZodError, default_policy\<lparr>pol_st := \<lparr>st_side = Some Sell, st_size = 10\<rparr>\<rparr>)"
proof -
  have s: "AlphaSignalSchema_ok (mock_signal (- 9 / 10))"
    by (simp add: mock_signal_ok)
  have "generateAction long_policy (mock_signal (- 9 / 10)) (mock_features 100 60) =
        decide_action long_policy (mock_signal (- 9 / 10)) 100 60"
    by (rule generateAction_decide [OF s mock_features_ok mock_features_vals])
  then have "generateAction long_policy (mock_signal (- 9 / 10)) (mock_features 100 60) =
     (Inl ZodError, default_policy\<lparr>pol_st := \<lparr>st_side = Some Sell, st_size = 10\<rparr>\<rparr>)"
    by (simp add: decide_action_def buildCloseAction_def buildOpenAction_def position_size_def
        capped_size_def computeBracket_def BracketSchema_ok_def
        ActionSchema_parse_def ActionSchema_ok_def
        long_policy_def default_policy_def mock_signal_def flat_def Let_def)
  then show ?thesis
    using long_policy_reachable s
    by (simp add: mock_features_ok mock_features_vals) (simp add: long_policy_def default_policy_def)
qed

section \<open>Properties of the MACD alpha\<close>

lemma decimal_1000: "numberToString decimal_js 1000 = ''1000''"
  by (simp add: decimal_js_def decimal.simps)

lemma macd_features_inputs:
  "macd_inputs (macd_features (Num m) (Num s) (Num h)) = Some (m, s, h)"
  by (simp add: macd_inputs_def macd_features_def)

lemma macd_features_header: "features_header_ok (macd_features m s h)"
  by (simp add: features_header_ok_def macd_features_def tf_1m)

lemma default_macd_parse: "MACDConfigSchema_parse default_macd_input = Inr (macd_cfg fresh_macd)"
  by (simp add: MACDConfigSchema_parse_def default_macd_input_def fresh_macd_def)

lemma new_default_macd: "new_MACDAlpha default_macd_input = Inr fresh_macd"
  by (simp add: new_MACDAlpha_def default_macd_parse) (simp add: fresh_macd_def)

lemma int_field_pos: "int_field_ok v \<Longrightarrow> 0 < d \<Longrightarrow> 0 < field_or d v"
  by (cases v) auto

lemma number_field_nonneg: "number_field_ok (\<lambda>x. 0 \<le> x) v \<Longrightarrow> 0 \<le> d \<Longrightarrow> 0 \<le> number_field d v"
  by (cases "(d, v)" rule: number_field.cases) auto

lemma new_macd_valid: "new_MACDAlpha c = Inr a \<Longrightarrow> macd_config_valid (macd_cfg a)"
  by (auto simp: new_MACDAlpha_def MACDConfigSchema_parse_def macd_config_valid_def
      int_field_pos number_field_nonneg split: if_splits sum.splits)

lemma macd_generateSignal_cfg: "macd_cfg (snd (macd_generateSignal js a f)) = macd_cfg a"
  unfolding macd_generateSignal_def Let_def case_prod_unfold updateState_def
  by (simp split: option.split sum.split)

lemma macd_reachable_valid: "macd_reachable a \<Longrightarrow> macd_config_valid (macd_cfg a)"
  by (induction rule: macd_reachable.induct)
     (simp_all add: new_macd_valid macd_generateSignal_cfg macd_reset_def)

text \<open>
  C5: for a MACD alpha with crossover mode on that holds a previous MACD and signal
  value, well-formed features carrying numeric \<^verbatim>\<open>macd\<close>, \<^verbatim>\<open>macd_signal\<close> and
  \<^verbatim>\<open>macd_histogram\<close> with \<open>|histogram| \<ge> minHistogram\<close>, and a sign flip of
  \<open>MACD - signal\<close> between the previous and the current observation,
  \<^verbatim>\<open>generateSignal\<close> returns a signal of score exactly \<open>+1\<close> (bullish flip) or \<open>-1\<close>
  (bearish flip), confidence exactly \<open>0.8\<close> and the rationale naming the crossover
  direction, and stores the current observation.
\<close>

theorem crossover_signal:
  assumes "macd_reachable a" and "useCrossover (macd_cfg a)"
    and "prevMacd (macd_st a) = Some pm" and "prevSignal (macd_st a) = Some ps"
    and "features_header_ok features"
    and "macd_inputs features = Some (macd, signal, histogram)"
    and "minHistogram (macd_cfg a) \<le> \<bar>histogram\<bar>"
    and "(pm < ps \<and> macd > signal) \<or> (pm > ps \<and> macd < signal)"
  shows "macd_generateSignal js a features =
           (Inr (Some \<lparr>s_id = ''macd-'' @ numberToString js (f_t features), s_t = f_t features,
                       s_symbol = f_symbol features, s_exch = f_exch features, s_tf = f_tf features,
                       s_score = Num (if macd > signal then 1 else - 1),
                       s_conf = Num (8 / 10),
                       s_horizon_sec = macd_horizonSec (macd_cfg a),
                       s_explain = Some (if macd > signal then ''MACD bullish crossover detected''
                                         else ''MACD bearish crossover detected'')\<rparr>),
            a\<lparr>macd_st := \<lparr>prevMacd = Some macd, prevSignal = Some signal,
                            prevHistogram = Some histogram\<rparr>\<rparr>)"
proof -
  have h: "0 < macd_horizonSec (macd_cfg a)"
    using macd_reachable_valid[OF assms(1)] by (simp add: macd_config_valid_def)
  have d: "detectCrossover a macd signal = Some (if macd > signal then Bullish else Bearish)"
    using assms(3,4,8) by (auto simp: detectCrossover_def Let_def)
  show ?thesis
  proof (cases "macd > signal")
    case True
    then show ?thesis
      using assms(2,3,5,6,7) h d
      by (simp add: macd_generateSignal_def Let_def updateState_def AlphaSignalSchema_parse_def
          AlphaSignalSchema_ok_def features_header_ok_def)
  next
    case False
    then show ?thesis
      using assms(2,3,5,6,7) h d
      by (simp add: macd_generateSignal_def Let_def updateState_def AlphaSignalSchema_parse_def
          AlphaSignalSchema_ok_def features_header_ok_def)
  qed
qed

lemma macd_below_reachable: "macd_reachable macd_below"
proof -
  have "macd_reachable fresh_macd"
    using new_default_macd by (rule macd_new)
  then have "macd_reachable (snd (macd_generateSignal decimal_js fresh_macd
      (macd_features (Num (- 1 / 100)) (Num 0) (Num (- 1 / 100)))))"
    by (rule macd_call)
  moreover have "snd (macd_generateSignal decimal_js fresh_macd
      (macd_features (Num (- 1 / 100)) (Num 0) (Num (- 1 / 100)))) = macd_below"
    unfolding macd_generateSignal_def macd_features_inputs Let_def case_prod_unfold
    by (simp add: updateState_def macd_below_def fresh_macd_def split: sum.split)
  ultimately show ?thesis by simp
qed

text \<open>
  The test "detects bullish crossover": previous MACD -0.01 and signal 0.0, then
  MACD 0.01 and signal 0.0.
\<close>

theorem crossover_signal_witness:
  "macd_reachable macd_below \<and>
   macd_generateSignal decimal_js macd_below (macd_features (Num (1 / 100)) (Num 0) (Num (1 / 100))) =
     (Inr (Some \<lparr>s_id = ''macd-1000'', s_t = 1000, s_symbol = ''BTCUSDT'', s_exch = ''BINANCE'',
                 s_tf = ''1m'', s_score = Num 1, s_conf = Num (8 / 10), s_horizon_sec = 300,
                 s_explain = Some ''MACD bullish crossover detected''\<rparr>),
      fresh_macd\<lparr>macd_st := \<lparr>prevMacd = Some (1 / 100), prevSignal = Some 0,
                               prevHistogram = Some (1 / 100)\<rparr>\<rparr>)"
proof -
  have "macd_generateSignal decimal_js macd_below
          (macd_features (Num (1 / 100)) (Num 0) (Num (1 / 100))) =
           (Inr (Some \<lparr>s_id = ''macd-'' @ numberToString decimal_js (f_t (macd_features (Num (1 / 100)) (Num 0) (Num (1 / 100)))),
                       s_t = f_t (macd_features (Num (1 / 100)) (Num 0) (Num (1 / 100))),
                       s_symbol = f_symbol (macd_features (Num (1 / 100)) (Num 0) (Num (1 / 100))),
                       s_exch = f_exch (macd_features (Num (1 / 100)) (Num 0) (Num (1 / 100))),
                       s_tf = f_tf (macd_features (Num (1 / 100)) (Num 0) (Num (1 / 100))),
                       s_score = Num (if (1 / 100 :: real) > 0 then 1 else - 1),
                       s_conf = Num (8 / 10),
                       s_horizon_sec = macd_horizonSec (macd_cfg macd_below),
                       s_explain = Some (if (1 / 100 :: real) > 0 then ''MACD bullish crossover detected''
                                         else ''MACD bearish crossover detected'')\<rparr>),
            macd_below\<lparr>macd_st := \<lparr>prevMacd = Some (1 / 100), prevSignal = Some 0,
                            prevHistogram = Some (1 / 100)\<rparr>\<rparr>)"
    by (rule crossover_signal [OF macd_below_reachable _ _ _ macd_features_header macd_features_inputs,
          where pm = "- 1 / 100" and ps = 0])
       (simp_all add: macd_below_def fresh_macd_def)
  then show ?thesis
    using macd_below_reachable
    by (simp add: macd_features_def decimal_1000 macd_below_def fresh_macd_def)
qed

text \<open>
  C8 (as the code has it): a call that returns \<^verbatim>\<open>null\<close> because a value is missing or
  \<open>NaN\<close> leaves the instance unchanged; a call with three numeric values that returns
  \<^verbatim>\<open>null\<close> (in particular every call with \<open>|histogram| < minHistogram\<close>) stores the
  current MACD, signal and histogram as the previous values and changes nothing
  else of the instance.
\<close>

theorem null_return_state_update:
  "(macd_inputs features = None \<longrightarrow> macd_generateSignal js a features = (Inr None, a)) \<and>
   (macd_inputs features = Some (macd, signal, histogram) \<and>
      \<bar>histogram\<bar> < minHistogram (macd_cfg a) \<longrightarrow>
    macd_generateSignal js a features =
      (Inr None, a\<lparr>macd_st := \<lparr>prevMacd = Some macd, prevSignal = Some signal,
                                prevHistogram = Some histogram\<rparr>\<rparr>)) \<and>
   (macd_inputs features = Some (macd, signal, histogram) \<and>
      fst (macd_generateSignal js a features) = Inr None \<longrightarrow>
    snd (macd_generateSignal js a features) =
      a\<lparr>macd_st := \<lparr>prevMacd = Some macd, prevSignal = Some signal,
                      prevHistogram = Some histogram\<rparr>\<rparr>)"
proof (intro conjI impI)
  assume "macd_inputs features = None"
  then show "macd_generateSignal js a features = (Inr None, a)"
    by (simp add: macd_generateSignal_def)
next
  assume "macd_inputs features = Some (macd, signal, histogram) \<and> \<bar>histogram\<bar> < minHistogram (macd_cfg a)"
  then show "macd_generateSignal js a features =
      (Inr None, a\<lparr>macd_st := \<lparr>prevMacd = Some macd, prevSignal = Some signal,
                                prevHistogram = Some histogram\<rparr>\<rparr>)"
    by (simp add: macd_generateSignal_def updateState_def)
next
  assume "macd_inputs features = Some (macd, signal, histogram) \<and>
      fst (macd_generateSignal js a features) = Inr None"
  then have "snd (macd_generateSignal js a features) = updateState a macd signal histogram"
    unfolding macd_generateSignal_def Let_def case_prod_unfold
    by (simp split: sum.split if_splits)
  then show "snd (macd_generateSignal js a features) =
      a\<lparr>macd_st := \<lparr>prevMacd = Some macd, prevSignal = Some signal,
                      prevHistogram = Some histogram\<rparr>\<rparr>"
    by (simp add: updateState_def)
qed

text \<open>
  The tests "returns null for NaN MACD values" and "returns null for histogram
  below threshold".
\<close>

theorem null_return_state_update_witness:
  "macd_generateSignal decimal_js macd_below (macd_features NaN NaN NaN) = (Inr None, macd_below) \<and>
   macd_generateSignal decimal_js fresh_macd
       (macd_features (Num (1 / 1000)) (Num (9 / 10000)) (Num (1 / 100000))) =
     (Inr None, fresh_macd\<lparr>macd_st := \<lparr>prevMacd = Some (1 / 1000), prevSignal = Some (9 / 10000),
                                         prevHistogram = Some (1 / 100000)\<rparr>\<rparr>)"
  using null_return_state_update [where features = "macd_features NaN NaN NaN"
      and js = decimal_js and a = macd_below]
    null_return_state_update [where features =
        "macd_features (Num (1 / 1000)) (Num (9 / 10000)) (Num (1 / 100000))"
      and macd = "1 / 1000" and signal = "9 / 10000" and histogram = "1 / 100000"
      and a = fresh_macd and js = decimal_js]
  by (simp add: macd_features_inputs) (simp add: macd_inputs_def macd_features_def fresh_macd_def)

text \<open>
  The claim as the specification words it (the state is updated also when a value
  is missing or \<open>NaN\<close>) fails: with a \<open>NaN\<close> histogram the call returns \<^verbatim>\<open>null\<close> before
  \<^verbatim>\<open>updateState\<close>, and the stored MACD stays -0.01 although the features carry 0.01.
\<close>

theorem invalid_input_keeps_state_counterexample:
  "map_of (f_vals (macd_features (Num (1 / 100)) (Num 0) NaN)) ''macd_histogram'' = Some NaN \<and>
   macd_generateSignal decimal_js macd_below (macd_features (Num (1 / 100)) (Num 0) NaN) =
     (Inr None, macd_below) \<and>
   prevMacd (macd_st macd_below) = Some (- 1 / 100) \<and>
   map_of (f_vals (macd_features (Num (1 / 100)) (Num 0) NaN)) ''macd'' = Some (Num (1 / 100))"
  by (simp add: macd_generateSignal_def macd_inputs_def macd_features_def macd_below_def)

section \<open>Properties of the AR(4) alpha\<close>

lemma fitAR4_short: "length returns < 10 \<Longrightarrow> fitAR4 returns = zero_fit"
  by (simp add: fitAR4_def)

lemma ar4_generateSignal_cases:
  "ar4_generateSignal js a f = (Inr None, a) \<or>
   (\<exists>r. ar4_generateSignal js a f = (ar4_signal js (ar4_observe a r) f, ar4_observe a r))"
  by (auto simp add: ar4_generateSignal_def Let_def split: option.split jsnum.split)

lemma ar4_observe_length: "length (returnHistory a) \<le> length (returnHistory (ar4_observe a r))"
  by (simp add: ar4_observe_def Let_def)

lemma ar4_observe_inv:
  assumes "ar4_inv a"
  shows "ar4_inv (ar4_observe a r)"
proof -
  define history where "history = returnHistory (ar4_observe a r)"
  have len: "length (returnHistory a) \<le> length history"
    unfolding history_def by (rule ar4_observe_length)
  have c: "coefficients (ar4_observe a r) = Some (fitAR4 history) \<or>
           coefficients (ar4_observe a r) = coefficients a"
    by (simp add: ar4_observe_def Let_def history_def)
  show ?thesis
    using assms len c
    by (auto simp: ar4_inv_def history_def[symmetric] fitAR4_short zero_fit_def split: option.splits)
qed

lemma ar4_step_inv: "ar4_inv a \<Longrightarrow> ar4_inv (snd (ar4_generateSignal js a f))"
  using ar4_generateSignal_cases[of js a f] by (auto simp: ar4_observe_inv)

lemma ar4_reachable_inv: "ar4_reachable a \<Longrightarrow> ar4_inv a"
proof (induction rule: ar4_reachable.induct)
  case (ar4_new c a)
  then show ?case by (auto simp: new_AR4Alpha_def ar4_inv_def split: sum.splits)
next
  case (ar4_call a js features)
  from ar4_call.IH show ?case by (rule ar4_step_inv)
next
  case (ar4_cleared a)
  then show ?case by (simp add: ar4_reset_def ar4_inv_def)
qed

lemma ar4_signal_null:
  assumes "ar4_inv a" "length (returnHistory a) < 10" "0 < minRSquared (ar4_cfg a)"
  shows "ar4_signal js a f = Inr None"
proof (cases "coefficients a")
  case None
  then show ?thesis by (simp add: ar4_signal_def)
next
  case (Some c)
  then have "rSquared c = 0" using assms(1,2) by (simp add: ar4_inv_def)
  then show ?thesis using Some assms(3) by (simp add: ar4_signal_def)
qed

text \<open>
  C10: on fewer than 10 returns \<^verbatim>\<open>fitAR4\<close> returns all-zero coefficients with
  \<open>rSquared = 0\<close>; and for every reachable AR(4) alpha with \<open>minRSquared > 0\<close>, every
  call of \<^verbatim>\<open>generateSignal\<close> after which fewer than 10 returns are held returns
  \<^verbatim>\<open>null\<close>.
\<close>

theorem no_signal_before_ten_returns:
  "(length returns < 10 \<longrightarrow>
      fitAR4 returns = \<lparr>beta0 = 0, beta1 = 0, beta2 = 0, beta3 = 0, beta4 = 0, rSquared = 0\<rparr>) \<and>
   (ar4_reachable a \<and> 0 < minRSquared (ar4_cfg a) \<and>
      length (returnHistory (snd (ar4_generateSignal js a features))) < 10 \<longrightarrow>
    fst (ar4_generateSignal js a features) = Inr None)"
proof (intro conjI impI)
  assume "length returns < 10"
  then show "fitAR4 returns = \<lparr>beta0 = 0, beta1 = 0, beta2 = 0, beta3 = 0, beta4 = 0, rSquared = 0\<rparr>"
    by (simp add: fitAR4_short zero_fit_def)
next
  assume h: "ar4_reachable a \<and> 0 < minRSquared (ar4_cfg a) \<and>
      length (returnHistory (snd (ar4_generateSignal js a features))) < 10"
  then have inv: "ar4_inv a"
    using ar4_reachable_inv by blast
  from ar4_generateSignal_cases[of js a features]
  show "fst (ar4_generateSignal js a features) = Inr None"
  proof
    assume "ar4_generateSignal js a features = (Inr None, a)"
    then show ?thesis by simp
  next
    assume "\<exists>r. ar4_generateSignal js a features = (ar4_signal js (ar4_observe a r) features, ar4_observe a r)"
    then obtain r where r: "ar4_generateSignal js a features = (ar4_signal js (ar4_observe a r) features, ar4_observe a r)"
      by blast
    have "ar4_signal js (ar4_observe a r) features = Inr None"
    proof (rule ar4_signal_null)
      show "ar4_inv (ar4_observe a r)" using inv by (rule ar4_observe_inv)
      show "length (returnHistory (ar4_observe a r)) < 10" using h r by simp
      show "0 < minRSquared (ar4_cfg (ar4_observe a r))" using h by (simp add: ar4_observe_def Let_def)
    qed
    then show ?thesis using r by simp
  qed
qed

lemma new_default_ar4: "new_AR4Alpha default_ar4_input = Inr fresh_ar4"
  by (simp add: new_AR4Alpha_def AR4ConfigSchema_parse_def default_ar4_input_def fresh_ar4_def)

lemma fresh_ar4_reachable: "ar4_reachable fresh_ar4"
  using new_default_ar4 by (rule ar4_new)

lemma fresh_ar4_first_call:
  "snd (ar4_generateSignal decimal_js fresh_ar4 (ar4_features (Num (1 / 1000)))) =
     fresh_ar4\<lparr>coefficients := Some zero_fit, returnHistory := [1 / 1000]\<rparr>"
  by (simp add: ar4_generateSignal_def ar4_features_def ar4_observe_def fresh_ar4_def Let_def
      fitAR4_short)

text \<open>
  The tests "returns zero coefficients for insufficient data" and "returns null for
  insufficient data".
\<close>

theorem no_signal_before_ten_returns_witness:
  "fitAR4 [1 / 1000, 2 / 1000, - 1 / 1000] =
     \<lparr>beta0 = 0, beta1 = 0, beta2 = 0, beta3 = 0, beta4 = 0, rSquared = 0\<rparr> \<and>
   ar4_reachable fresh_ar4 \<and> 0 < minRSquared (ar4_cfg fresh_ar4) \<and>
   returnHistory (snd (ar4_generateSignal decimal_js fresh_ar4 (ar4_features (Num (1 / 1000))))) =
     [1 / 1000] \<and>
   fst (ar4_generateSignal decimal_js fresh_ar4 (ar4_features (Num (1 / 1000)))) = Inr None"
  using no_signal_before_ten_returns [where returns = "[1 / 1000, 2 / 1000, - 1 / 1000]"
      and a = fresh_ar4 and js = decimal_js and features = "ar4_features (Num (1 / 1000))"]
    fresh_ar4_reachable
  by (simp add: fresh_ar4_first_call) (simp add: fresh_ar4_def)

subsection \<open>Matrix inversion\<close>

lemma foldl_index_bounds:
  assumes "i \<le> acc" "acc < n" "\<forall>k\<in>set ks. i \<le> k \<and> k < n"
    and "\<And>a k. f a k = a \<or> f a k = k"
  shows "i \<le> foldl f acc ks \<and> foldl f acc ks < n"
  using assms(1,2,3)
proof (induction ks arbitrary: acc)
  case Nil
  then show ?case by simp
next
  case (Cons k ks)
  have "f acc k = acc \<or> f acc k = k" by (rule assms(4))
  then have "i \<le> f acc k \<and> f acc k < n" using Cons.prems by auto
  then show ?case using Cons.IH[of "f acc k"] Cons.prems(3) by simp
qed

lemma select_maxRow_bounds:
  assumes "i < n"
  shows "i \<le> select_maxRow n aug i \<and> select_maxRow n aug i < n"
  unfolding select_maxRow_def
  by (rule foldl_index_bounds) (use assms in auto)

lemma swap_rows_nth:
  assumes "length aug = n" "i < n" "m < n" "k < n"
  shows "swap_rows aug i m ! k = (if k = m then aug ! i else if k = i then aug ! m else aug ! k)"
  using assms by (simp add: swap_rows_def nth_list_update)

lemma swap_rows_length: "length (swap_rows aug i m) = length aug"
  by (simp add: swap_rows_def)

lemma swap_rows_shape:
  assumes "well_shaped n aug" "i < n" "m < n"
  shows "well_shaped n (swap_rows aug i m)"
  using assms by (simp add: well_shaped_def swap_rows_length swap_rows_nth)

text \<open>The pivot search returns a row holding the largest magnitude of the column.\<close>

lemma foldl_peak:
  fixes f :: "nat \<Rightarrow> real"
  shows "f (foldl (\<lambda>m k. if f k > f m then k else m) acc ks) = Max (set (map f (acc # ks)))"
proof (induction ks arbitrary: acc)
  case Nil
  then show ?case by simp
next
  case (Cons k ks)
  have "f (foldl (\<lambda>m k. if f k > f m then k else m) acc (k # ks)) =
        f (foldl (\<lambda>m k. if f k > f m then k else m) (if f k > f acc then k else acc) ks)"
    by simp
  also have "\<dots> = Max (set (map f ((if f k > f acc then k else acc) # ks)))"
    by (rule Cons.IH)
  also have "\<dots> = Max (set (map f (acc # k # ks)))"
    by (cases "ks = []") (auto simp: max_def)
  finally show ?case by simp
qed

lemma select_maxRow_peak:
  assumes "i < n"
  shows "\<bar>aug ! select_maxRow n aug i ! i\<bar> = column_peak n aug i"
proof -
  have "[i..<n] = i # [i + 1..<n]" using assms by (simp add: upt_conv_Cons)
  then show ?thesis
    unfolding select_maxRow_def column_peak_def
    using foldl_peak[of "\<lambda>k. \<bar>aug ! k ! i\<bar>" i "[i + 1..<n]"] by simp
qed

lemma selected_pivot_row:
  assumes "length aug = n" "i < n"
  shows "selected_pivot n aug i = aug ! select_maxRow n aug i ! i"
  using assms select_maxRow_bounds[OF assms(2), of aug]
  by (simp add: selected_pivot_def swap_rows_nth)

lemma selected_pivot_peak:
  assumes "length aug = n" "i < n"
  shows "\<bar>selected_pivot n aug i\<bar> = column_peak n aug i"
  using selected_pivot_row[OF assms] select_maxRow_peak[OF assms(2)] by simp

lemma eliminate_column_nth:
  assumes "well_shaped n sc" "i < n" "k < n" "j < 2 * n"
  shows "eliminate_column exact n sc i ! k ! j =
           (if k = i then sc ! i ! j else sc ! k ! j - sc ! k ! i * sc ! i ! j)"
  using assms by (simp add: eliminate_column_def well_shaped_def Let_def exact_def)

lemma eliminate_column_shape:
  assumes "well_shaped n sc" "i < n"
  shows "well_shaped n (eliminate_column rd n sc i)"
  using assms by (simp add: eliminate_column_def well_shaped_def Let_def)

text \<open>The entries after one pass, in terms of the matrix after the row swap.\<close>

lemma pivot_step_entries:
  assumes "well_shaped n aug" "i < n" "pivot_step exact n i aug = Some aug'"
  defines "sw \<equiv> swap_rows aug i (select_maxRow n aug i)"
  shows "well_shaped n aug'" "sw ! i ! i \<noteq> 0"
    "\<And>k j. k < n \<Longrightarrow> j < 2 * n \<Longrightarrow>
       aug' ! k ! j = (if k = i then sw ! i ! j / sw ! i ! i
                       else sw ! k ! j - sw ! k ! i * (sw ! i ! j / sw ! i ! i))"
proof -
  have m: "select_maxRow n aug i < n" using select_maxRow_bounds[OF assms(2)] by simp
  have sw: "well_shaped n sw" unfolding sw_def by (rule swap_rows_shape[OF assms(1,2) m])
  define sc where "sc = sw[i := scale_row exact (sw ! i ! i) (sw ! i)]"
  have big: "\<not> \<bar>sw ! i ! i\<bar> < 1 / 10 ^ 10" and aug': "aug' = eliminate_column exact n sc i"
    using assms(3) by (auto simp: pivot_step_def Let_def sw_def sc_def split: if_splits)
  show "sw ! i ! i \<noteq> 0" using big by auto
  have sc: "well_shaped n sc"
    using sw assms(2) by (auto simp: sc_def well_shaped_def scale_row_def nth_list_update)
  show "well_shaped n aug'" unfolding aug' by (rule eliminate_column_shape[OF sc assms(2)])
  fix k j assume kj: "k < n" "j < 2 * n"
  have sci: "sc ! i ! j' = sw ! i ! j' / sw ! i ! i" if "j' < 2 * n" for j'
    using sw assms(2) that by (simp add: sc_def well_shaped_def scale_row_def exact_def)
  have sck: "sc ! k = sw ! k" if "k \<noteq> i"
    using that by (simp add: sc_def)
  have ii: "i < 2 * n" using assms(2) by simp
  show "aug' ! k ! j = (if k = i then sw ! i ! j / sw ! i ! i
                       else sw ! k ! j - sw ! k ! i * (sw ! i ! j / sw ! i ! i))"
    unfolding aug' eliminate_column_nth[OF sc assms(2) kj]
    using sci[OF kj(2)] sck by simp
qed

lemma swap_rows_combine:
  assumes "well_shaped n aug" "i < n" "m < n" "rows_combine M n aug"
  shows "rows_combine M n (swap_rows aug i m)"
  using assms by (simp add: rows_combine_def well_shaped_def swap_rows_nth)

lemma pivot_step_rows_combine:
  assumes "well_shaped n aug" "i < n" "rows_combine M n aug" "pivot_step exact n i aug = Some aug'"
  shows "rows_combine M n aug'"
proof -
  define sw where "sw = swap_rows aug i (select_maxRow n aug i)"
  define p where "p = sw ! i ! i"
  have m: "select_maxRow n aug i < n" using select_maxRow_bounds[OF assms(2)] by simp
  have sw: "rows_combine M n sw"
    unfolding sw_def by (rule swap_rows_combine[OF assms(1,2) m assms(3)])
  have e: "aug' ! k ! j = (if k = i then sw ! i ! j / p
                       else sw ! k ! j - sw ! k ! i * (sw ! i ! j / p))"
    if "k < n" "j < 2 * n" for k j
    using pivot_step_entries(3)[OF assms(1,2,4) that] by (simp add: sw_def p_def)
  have c: "sw ! k ! j = (\<Sum>m<n. sw ! k ! (n + m) * M ! m ! j)" if "k < n" "j < n" for k j
    using sw that by (simp add: rows_combine_def)
  show ?thesis
    unfolding rows_combine_def
  proof (intro allI impI)
    fix k j assume kj: "k < n" "j < n"
    have r: "aug' ! k ! (n + m) = (if k = i then sw ! i ! (n + m) / p
                       else sw ! k ! (n + m) - sw ! k ! i * (sw ! i ! (n + m) / p))" if "m < n" for m
      using e[OF kj(1), of "n + m"] that by simp
    have l: "aug' ! k ! j = (if k = i then sw ! i ! j / p
                       else sw ! k ! j - sw ! k ! i * (sw ! i ! j / p))"
      using e[OF kj(1), of j] kj(2) by simp
    show "aug' ! k ! j = (\<Sum>m<n. aug' ! k ! (n + m) * M ! m ! j)"
    proof (cases "k = i")
      case True
      have ri: "aug' ! k ! (n + m) = sw ! i ! (n + m) / p" if "m < n" for m
        using r[OF that] True by simp
      have "(\<Sum>m<n. aug' ! k ! (n + m) * M ! m ! j) = (\<Sum>m<n. sw ! i ! (n + m) * M ! m ! j / p)"
        by (intro sum.cong) (simp_all add: ri)
      also have "\<dots> = (\<Sum>m<n. sw ! i ! (n + m) * M ! m ! j) / p"
        by (simp add: sum_divide_distrib)
      finally show ?thesis using l True c[OF assms(2) kj(2)] by simp
    next
      case False
      have rk: "aug' ! k ! (n + m) = sw ! k ! (n + m) - sw ! k ! i * (sw ! i ! (n + m) / p)"
        if "m < n" for m
        using r[OF that] False by simp
      have "(\<Sum>m<n. aug' ! k ! (n + m) * M ! m ! j) =
            (\<Sum>m<n. sw ! k ! (n + m) * M ! m ! j - sw ! k ! i * (sw ! i ! (n + m) * M ! m ! j / p))"
        by (intro sum.cong) (simp_all add: rk left_diff_distrib)
      also have "\<dots> = (\<Sum>m<n. sw ! k ! (n + m) * M ! m ! j) -
                       sw ! k ! i * ((\<Sum>m<n. sw ! i ! (n + m) * M ! m ! j) / p)"
        by (simp add: sum_subtractf sum_distrib_left sum_divide_distrib)
      finally show ?thesis using l False c[OF kj] c[OF assms(2) kj(2)] by simp
    qed
  qed
qed

lemma pivot_step_unit_columns:
  assumes "well_shaped n aug" "i < n" "unit_columns n i aug" "pivot_step exact n i aug = Some aug'"
  shows "unit_columns n (Suc i) aug'"
proof -
  define m where "m = select_maxRow n aug i"
  define sw where "sw = swap_rows aug i m"
  define p where "p = sw ! i ! i"
  have m: "i \<le> m" "m < n" using select_maxRow_bounds[OF assms(2)] by (simp_all add: m_def)
  have len: "length aug = n" using assms(1) by (simp add: well_shaped_def)
  have p: "p \<noteq> 0" using pivot_step_entries(2)[OF assms(1,2,4)] by (simp add: sw_def p_def m_def)
  have e: "aug' ! k ! j = (if k = i then sw ! i ! j / p
                       else sw ! k ! j - sw ! k ! i * (sw ! i ! j / p))"
    if "k < n" "j < 2 * n" for k j
    using pivot_step_entries(3)[OF assms(1,2,4) that] by (simp add: sw_def p_def m_def)
  have u: "sw ! k ! j = (if k = j then 1 else 0)" if "k < n" "j < i" for k j
    using assms(3) that m assms(2)
    by (auto simp: sw_def swap_rows_nth[OF len assms(2) m(2) that(1)] unit_columns_def)
  show ?thesis
    unfolding unit_columns_def
  proof (intro allI impI)
    fix k j assume kj: "k < n" "j < Suc i"
    then have j2: "j < 2 * n" using assms(2) by simp
    show "aug' ! k ! j = (if k = j then 1 else 0)"
    proof (cases "j = i")
      case True
      then show ?thesis using e[OF kj(1) j2] p by (simp add: p_def)
    next
      case False
      then have ji: "j < i" using kj(2) by simp
      then show ?thesis
        using e[OF kj(1) j2] u[OF kj(1) ji] u[OF assms(2) ji] by auto
    qed
  qed
qed

lemma forward_elimination_inv:
  assumes "well_shaped n aug" "rows_combine M n aug" "unit_columns n i aug" "i \<le> n"
    "forward_elimination exact n i aug = Some aug'"
  shows "well_shaped n aug' \<and> rows_combine M n aug' \<and> unit_columns n n aug'"
proof -
  have "forward_elimination rd n i aug = Some aug' \<Longrightarrow> rd = exact \<Longrightarrow> well_shaped n aug \<Longrightarrow>
        rows_combine M n aug \<Longrightarrow> unit_columns n i aug \<Longrightarrow> i \<le> n \<Longrightarrow>
        well_shaped n aug' \<and> rows_combine M n aug' \<and> unit_columns n n aug'" for rd
  proof (induction rd n i aug rule: forward_elimination.induct)
    case (1 rd n i augmented)
    show ?case
    proof (cases "i < n")
      case True
      then obtain next_aug where step: "pivot_step rd n i augmented = Some next_aug"
        and rest: "forward_elimination rd n (Suc i) next_aug = Some aug'"
        using "1.prems"(1) by (simp add: forward_elimination.simps[of rd n i] split: option.splits)
      have step': "pivot_step exact n i augmented = Some next_aug"
        using step "1.prems"(2) by simp
      show ?thesis
      proof (rule "1.IH"[OF True step rest "1.prems"(2)])
        show "well_shaped n next_aug"
          by (rule pivot_step_entries(1)[OF "1.prems"(3) True step'])
        show "rows_combine M n next_aug"
          by (rule pivot_step_rows_combine[OF "1.prems"(3) True "1.prems"(4) step'])
        show "unit_columns n (Suc i) next_aug"
          by (rule pivot_step_unit_columns[OF "1.prems"(3) True "1.prems"(5) step'])
        show "Suc i \<le> n" using True by simp
      qed
    next
      case False
      then have "forward_elimination rd n i augmented = Some augmented"
        by (simp add: forward_elimination.simps[of rd n i augmented])
      with False have "i = n" "aug' = augmented"
        using "1.prems"(1,6) by simp_all
      then show ?thesis using "1.prems"(3,4,5) by simp
    qed
  qed
  from this[OF assms(5) refl assms(1,2,3,4)] show ?thesis .
qed

lemma augment_nth:
  assumes "square M" "k < length M"
  shows "length (augment M ! k) = 2 * length M"
    "\<And>j. j < length M \<Longrightarrow> augment M ! k ! j = M ! k ! j"
    "\<And>m. m < length M \<Longrightarrow> augment M ! k ! (length M + m) = (if k = m then 1 else 0)"
proof -
  have len: "length (M ! k) = length M"
    using assms by (simp add: square_def list_all_length)
  show "length (augment M ! k) = 2 * length M"
    using assms(2) len by (simp add: augment_def Let_def)
  show "\<And>j. j < length M \<Longrightarrow> augment M ! k ! j = M ! k ! j"
    using assms(2) len by (simp add: augment_def Let_def nth_append)
  show "\<And>m. m < length M \<Longrightarrow> augment M ! k ! (length M + m) = (if k = m then 1 else 0)"
    using assms(2) len by (simp add: augment_def Let_def nth_append)
qed

lemma augment_inv:
  assumes "square M"
  shows "well_shaped (length M) (augment M)" "rows_combine M (length M) (augment M)"
    "unit_columns (length M) 0 (augment M)"
proof -
  show "well_shaped (length M) (augment M)"
    using augment_nth(1)[OF assms] by (simp add: well_shaped_def augment_def Let_def)
  show "rows_combine M (length M) (augment M)"
    unfolding rows_combine_def
  proof (intro allI impI)
    fix k j assume kj: "k < length M" "j < length M"
    have "(\<Sum>m<length M. augment M ! k ! (length M + m) * M ! m ! j) =
          (\<Sum>m<length M. if k = m then M ! m ! j else 0)"
      using augment_nth(3)[OF assms kj(1)] by (intro sum.cong) simp_all
    also have "\<dots> = M ! k ! j" using kj(1) by simp
    finally show "augment M ! k ! j = (\<Sum>m<length M. augment M ! k ! (length M + m) * M ! m ! j)"
      using augment_nth(2)[OF assms kj] by simp
  qed
  show "unit_columns (length M) 0 (augment M)" by (simp add: unit_columns_def)
qed

lemma eliminated_is_left_inverse:
  assumes "square M" "forward_elimination exact (length M) 0 (augment M) = Some aug"
  shows "mat_mul (map (drop (length M)) aug) M = identity (length M)"
proof -
  define n where "n = length M"
  have inv: "well_shaped n aug" "rows_combine M n aug" "unit_columns n n aug"
    using forward_elimination_inv[OF augment_inv[OF assms(1)] _ assms(2)] by (simp_all add: n_def)
  have len: "length aug = n" and row: "\<And>k. k < n \<Longrightarrow> length (aug ! k) = 2 * n"
    using inv(1) by (simp_all add: well_shaped_def)
  have entry: "(\<Sum>m<n. drop n (aug ! k) ! m * M ! m ! j) = (if k = j then 1 else 0)"
    if "k < n" "j < n" for k j
  proof -
    have "(\<Sum>m<n. drop n (aug ! k) ! m * M ! m ! j) = (\<Sum>m<n. aug ! k ! (n + m) * M ! m ! j)"
      using row[OF that(1)] by (intro sum.cong) simp_all
    also have "\<dots> = aug ! k ! j" using inv(2) that by (simp add: rows_combine_def)
    also have "\<dots> = (if k = j then 1 else 0)" using inv(3) that by (simp add: unit_columns_def)
    finally show ?thesis .
  qed
  have "mat_mul (map (drop n) aug) M = identity n"
  proof (rule nth_equalityI)
    show "length (mat_mul (map (drop n) aug) M) = length (identity n)"
      by (simp add: mat_mul_def identity_def len)
    fix k assume "k < length (mat_mul (map (drop n) aug) M)"
    then have k: "k < n" by (simp add: mat_mul_def len)
    show "mat_mul (map (drop n) aug) M ! k = identity n ! k"
    proof (rule nth_equalityI)
      show "length (mat_mul (map (drop n) aug) M ! k) = length (identity n ! k)"
        using k by (simp add: mat_mul_def identity_def len n_def)
      fix j assume "j < length (mat_mul (map (drop n) aug) M ! k)"
      then have j: "j < n" using k by (simp add: mat_mul_def len n_def)
      show "mat_mul (map (drop n) aug) M ! k ! j = identity n ! k ! j"
        using k j entry[OF k j] by (simp add: mat_mul_def identity_def len n_def[symmetric])
    qed
  qed
  then show ?thesis by (simp add: n_def)
qed

text \<open>The branch taken, for every rounding.\<close>

lemma pivot_step_length: "pivot_step rd n i aug = Some aug' \<Longrightarrow> length aug' = n"
  by (auto simp: pivot_step_def eliminate_column_def Let_def split: if_splits)

lemma passes_length:
  "length aug = n \<Longrightarrow> passes rd n k aug = Some a \<Longrightarrow> length a = n"
  by (cases k) (auto simp: pivot_step_length split: option.splits)

lemma pivot_step_None:
  assumes "length aug = n" "i < n"
  shows "pivot_step rd n i aug = None \<longleftrightarrow> column_peak n aug i < 1 / 10 ^ 10"
  using selected_pivot_peak[OF assms]
  by (simp add: pivot_step_def selected_pivot_def Let_def)

lemma forward_elimination_passes:
  assumes "i \<le> n"
  shows "(case passes rd n i aug of None \<Rightarrow> None | Some a \<Rightarrow> forward_elimination rd n i a) =
         passes rd n n aug"
  using assms
proof (induction "n - i" arbitrary: i)
  case 0
  then have "i = n" by simp
  then show ?case by (simp add: forward_elimination.simps[of rd n n] split: option.split)
next
  case (Suc d)
  then have lt: "i < n" and d: "d = n - Suc i" and le: "Suc i \<le> n" by simp_all
  have "(case passes rd n i aug of None \<Rightarrow> None | Some a \<Rightarrow> forward_elimination rd n i a) =
        (case passes rd n (Suc i) aug of None \<Rightarrow> None
         | Some a \<Rightarrow> forward_elimination rd n (Suc i) a)"
    using lt by (simp add: forward_elimination.simps[of rd n i] split: option.split)
  also have "\<dots> = passes rd n n aug" by (rule Suc.hyps(1)[OF d le])
  finally show ?case .
qed

lemma passes_None_iff:
  assumes "length aug = n" "m \<le> n"
  shows "passes rd n m aug = None \<longleftrightarrow>
     (\<exists>k<m. case passes rd n k aug of None \<Rightarrow> False
                 | Some a \<Rightarrow> column_peak n a k < 1 / 10 ^ 10)"
  using assms(2)
proof (induction m)
  case 0
  then show ?case by simp
next
  case (Suc m)
  then have IH: "passes rd n m aug = None \<longleftrightarrow>
     (\<exists>k<m. case passes rd n k aug of None \<Rightarrow> False
                 | Some a \<Rightarrow> column_peak n a k < 1 / 10 ^ 10)" and m: "m < n"
    by simp_all
  show ?case
  proof (cases "passes rd n m aug")
    case None
    then show ?thesis using IH by (auto simp: less_Suc_eq)
  next
    case (Some a)
    then have no: "\<not> (\<exists>k<m. case passes rd n k aug of None \<Rightarrow> False
                 | Some a \<Rightarrow> column_peak n a k < 1 / 10 ^ 10)"
      using IH by simp
    have "length a = n" by (rule passes_length[OF assms(1) Some])
    then have "pivot_step rd n m a = None \<longleftrightarrow> column_peak n a m < 1 / 10 ^ 10"
      using m by (rule pivot_step_None)
    then show ?thesis
      using Some no by (auto simp: less_Suc_eq)
  qed
qed

lemma forward_elimination_None_iff:
  "forward_elimination rd (length M) 0 (augment M) = None \<longleftrightarrow> small_pivot_met rd M"
proof -
  have "length (augment M) = length M" by (simp add: augment_def Let_def)
  then show ?thesis
    using forward_elimination_passes[of 0 "length M" rd "augment M"]
    by (simp add: passes_None_iff small_pivot_met_def)
qed

lemma invertMatrix_branches:
  "(small_pivot_met rd M \<longrightarrow> invertMatrix rd M = identity (length M)) \<and>
   (\<not> small_pivot_met rd M \<longrightarrow>
      (\<exists>aug. passes rd (length M) (length M) (augment M) = Some aug \<and>
             invertMatrix rd M = map (drop (length M)) aug))"
proof (intro conjI impI)
  assume "small_pivot_met rd M"
  then have "forward_elimination rd (length M) 0 (augment M) = None"
    using forward_elimination_None_iff[of rd M] by blast
  then show "invertMatrix rd M = identity (length M)"
    by (simp add: invertMatrix_def Let_def)
next
  assume "\<not> small_pivot_met rd M"
  then obtain aug where aug: "forward_elimination rd (length M) 0 (augment M) = Some aug"
    using forward_elimination_None_iff[of rd M] by auto
  then have "passes rd (length M) (length M) (augment M) = Some aug"
    using forward_elimination_passes[of 0 "length M" rd "augment M"] by simp
  then show "\<exists>aug. passes rd (length M) (length M) (augment M) = Some aug \<and>
             invertMatrix rd M = map (drop (length M)) aug"
    using aug by (simp add: invertMatrix_def Let_def)
qed

text \<open>Without rounding, the matrix returned after a full elimination is a left inverse.\<close>

lemma invertMatrix_exact_inverse:
  assumes "square M" "\<not> small_pivot_met exact M"
  shows "mat_mul (invertMatrix exact M) M = identity (length M)"
proof -
  obtain aug where aug: "forward_elimination exact (length M) 0 (augment M) = Some aug"
    using assms(2) forward_elimination_None_iff[of exact M] by auto
  then show ?thesis
    using eliminated_is_left_inverse[OF assms(1) aug] by (simp add: invertMatrix_def Let_def)
qed

lemma design_matrix_first_row:
  assumes "5 \<le> length returns"
  shows "length (design_matrix returns ! 0) = 5"
proof -
  have "design_matrix returns ! 0 =
        [1, returns ! (4 - 1), returns ! (4 - 2), returns ! (4 - 3), returns ! (4 - 4)]"
    unfolding design_matrix_def using assms by (subst nth_map) simp_all
  then show ?thesis by simp
qed

lemma normal_matrix_square:
  "square (normal_matrix X) \<and> length (normal_matrix X) = length (X ! 0)"
  by (simp add: normal_matrix_def square_def Let_def list_all_length)

text \<open>
  C6: for a square matrix and every rounding of the arithmetic, \<^verbatim>\<open>invertMatrix\<close>
  returns the identity matrix whenever at some pass of the elimination the largest
  magnitude on and below the diagonal of the pass's column is below \<open>1e-10\<close>, and
  otherwise the right half of the augmented matrix after all passes; without
  rounding that matrix is an inverse, its product with the input being the identity.
  The pivot a pass selects is an entry of its column, in a row on or below the
  diagonal, of that largest magnitude (partial pivoting). The matrix \<^verbatim>\<open>X'X\<close> the AR(4)
  fit inverts (at least 10 returns) is a square matrix of size 5.
\<close>

theorem invertMatrix_fallback_or_inverse:
  "(square M \<longrightarrow>
      (small_pivot_met rd M \<longrightarrow> invertMatrix rd M = identity (length M)) \<and>
      (\<not> small_pivot_met rd M \<longrightarrow>
         (\<exists>aug. passes rd (length M) (length M) (augment M) = Some aug \<and>
                invertMatrix rd M = map (drop (length M)) aug)) \<and>
      (\<not> small_pivot_met exact M \<longrightarrow> mat_mul (invertMatrix exact M) M = identity (length M))) \<and>
   (length a = n \<and> i < n \<longrightarrow>
      i \<le> select_maxRow n a i \<and> select_maxRow n a i < n \<and>
      selected_pivot n a i = a ! select_maxRow n a i ! i \<and>
      \<bar>selected_pivot n a i\<bar> = column_peak n a i) \<and>
   (10 \<le> length returns \<longrightarrow>
      square (normal_matrix (design_matrix returns)) \<and>
      length (normal_matrix (design_matrix returns)) = 5)"
proof (intro conjI impI)
  show "invertMatrix rd M = identity (length M)" if "small_pivot_met rd M"
    using that invertMatrix_branches[of rd M] by blast
  show "\<exists>aug. passes rd (length M) (length M) (augment M) = Some aug \<and>
             invertMatrix rd M = map (drop (length M)) aug" if "\<not> small_pivot_met rd M"
    using that invertMatrix_branches[of rd M] by blast
  show "mat_mul (invertMatrix exact M) M = identity (length M)"
    if "square M" "\<not> small_pivot_met exact M"
    using that by (rule invertMatrix_exact_inverse)
  show "i \<le> select_maxRow n a i" "select_maxRow n a i < n" if "length a = n \<and> i < n"
    using that select_maxRow_bounds[of i n a] by simp_all
  show "selected_pivot n a i = a ! select_maxRow n a i ! i" if "length a = n \<and> i < n"
    using that selected_pivot_row[of a n i] by simp
  show "\<bar>selected_pivot n a i\<bar> = column_peak n a i" if "length a = n \<and> i < n"
    using that selected_pivot_peak[of a n i] by simp
  show "square (normal_matrix (design_matrix returns))"
    "length (normal_matrix (design_matrix returns)) = 5" if "10 \<le> length returns"
    using that normal_matrix_square[of "design_matrix returns"]
      design_matrix_first_row[of returns] by simp_all
qed

text \<open>
  A matrix whose first pass has to swap rows, with its inverse, and a singular
  matrix, whose second pass finds no pivot.
\<close>

lemma swap_example:
  "square [[0, 2], [4, 0]]" "\<not> small_pivot_met exact [[0, 2], [4, 0]]"
  "invertMatrix exact [[0, 2], [4, 0]] = [[0, 1 / 4], [1 / 2, 0]]"
  "select_maxRow 2 (augment [[0, 2], [4, 0]]) 0 = 1"
  "selected_pivot 2 (augment [[0, 2], [4, 0]]) 0 = 4"
  "column_peak 2 (augment [[0, 2], [4, 0]]) 0 = 4"
  "length (augment [[0, 2], [4, 0]]) = 2"
  by code_simp+

lemma singular_example:
  "square [[1, 2], [2, 4]]" "small_pivot_met exact [[1, 2], [2, 4]]"
  by code_simp+

text \<open>
  With rounding, the pivots tested are the rounded ones: the singular matrix below
  meets no small pivot under the coarse rounding, and what is returned for it is
  not the identity.
\<close>

lemma rounding_example:
  "square [[3, 1], [3, 1]]" "small_pivot_met exact [[3, 1], [3, 1]]"
  "invertMatrix fixed_point [[3, 1], [3, 1]] = [[341, - 341], [- 1023, 1024]]"
  "identity 2 = [[1, 0], [0, 1]]"
  by code_simp+

theorem invertMatrix_fallback_or_inverse_witness:
  "square [[0, 2], [4, 0]] \<and> \<not> small_pivot_met exact [[0, 2], [4, 0]] \<and>
   invertMatrix exact [[0, 2], [4, 0]] = [[0, 1 / 4], [1 / 2, 0]] \<and>
   mat_mul (invertMatrix exact [[0, 2], [4, 0]]) [[0, 2], [4, 0]] = identity 2 \<and>
   select_maxRow 2 (augment [[0, 2], [4, 0]]) 0 = 1 \<and>
   selected_pivot 2 (augment [[0, 2], [4, 0]]) 0 = 4 \<and>
   column_peak 2 (augment [[0, 2], [4, 0]]) 0 = 4 \<and>
   square [[1, 2], [2, 4]] \<and> small_pivot_met exact [[1, 2], [2, 4]] \<and>
   invertMatrix exact [[1, 2], [2, 4]] = identity 2 \<and>
   square [[3, 1], [3, 1]] \<and> small_pivot_met exact [[3, 1], [3, 1]] \<and>
   invertMatrix exact [[3, 1], [3, 1]] = identity 2 \<and>
   \<not> small_pivot_met fixed_point [[3, 1], [3, 1]] \<and>
   invertMatrix fixed_point [[3, 1], [3, 1]] = [[341, - 341], [- 1023, 1024]] \<and>
   length (normal_matrix (design_matrix [1, 2, 4, 3, 5, 7, 6, 8, 9, 11])) = 5"
  using invertMatrix_fallback_or_inverse
      [where M = "[[0, 2], [4, 0]]" and rd = exact and n = 2 and i = 0
         and a = "augment [[0, 2], [4, 0]]" and returns = "[1, 2, 4, 3, 5, 7, 6, 8, 9, 11]"]
    invertMatrix_fallback_or_inverse
      [where M = "[[1, 2], [2, 4]]" and rd = exact and n = 2 and i = 0
         and a = "augment [[0, 2], [4, 0]]" and returns = "[]"]
    invertMatrix_fallback_or_inverse
      [where M = "[[3, 1], [3, 1]]" and rd = exact and n = 2 and i = 0
         and a = "augment [[0, 2], [4, 0]]" and returns = "[]"]
    invertMatrix_fallback_or_inverse
      [where M = "[[3, 1], [3, 1]]" and rd = fixed_point and n = 2 and i = 0
         and a = "augment [[0, 2], [4, 0]]" and returns = "[]"]
    swap_example singular_example rounding_example
  by (simp add: numeral_2_eq_2)

end
